theory Spec2Isabelle
  imports Complex_Main
begin

section \<open>fast-align-audio: offset search and alignment (alignment.py)\<close>

text \<open>
  A shallow embedding of \<^verbatim>\<open>src/fast_align_audio/alignment.py\<close>.

  A NumPy array is a record of its element type, its C-contiguity flag and its samples
  (one-dimensional). A raised exception is the left injection of a sum type. The two
  collaborators that are not Python code of the module are parameters of the functions
  that call them: the correlation kernel behind \<^verbatim>\<open>np.corrcoef(...)[1, 0]\<close>
  (parameter \<open>cc\<close>) and the call of the C routine
  \<^verbatim>\<open>_fast_align_audio.lib.fast_find_alignment\<close> (parameter \<open>native\<close>), which returns
  an integer or raises, as when an argument does not fit the C parameter it is
  converted to. Where a concrete scorer is needed, \<open>corrcoef_10\<close> is the
  coefficient in exact real arithmetic. Assertions are modelled as enabled. The strings
  \<^verbatim>\<open>method\<close>, \<^verbatim>\<open>align_mode\<close> and \<^verbatim>\<open>fix_length\<close> are kept as strings, so that
  an unrecognised value is an input like any other.
\<close>

subsection \<open>Data model\<close>

datatype np_dtype = Float16 | Float32 | Float64 | Int16 | Int32 | Int64

record 'a ndarray =
  dtype :: np_dtype
  c_contiguous :: bool
  samples :: "'a list"

datatype error = AssertionError string | ValueError string | OverflowError string

text \<open>A correlation coefficient is a floating-point number: either NaN or a value.\<close>

datatype 'v score = NaN | Val 'v

subsection \<open>Python and NumPy primitives\<close>

text \<open>
  Slice bounds as Python normalises them for a positive step: a negative bound counts
  from the end, and every bound is clamped to \<open>0 .. len\<close>.
\<close>

definition slice_index :: "nat \<Rightarrow> int \<Rightarrow> nat" where
  "slice_index n i = (if i < 0 then nat (max 0 (int n + i)) else min n (nat i))"

text \<open>\<^verbatim>\<open>xs[start:stop]\<close>; \<open>None\<close> is an omitted bound.\<close>

definition py_slice :: "'a list \<Rightarrow> int option \<Rightarrow> int option \<Rightarrow> 'a list" where
  "py_slice xs start stop =
     (let n = length xs;
          lo = (case start of None \<Rightarrow> 0 | Some i \<Rightarrow> slice_index n i);
          hi = (case stop of None \<Rightarrow> n | Some j \<Rightarrow> slice_index n j)
      in drop lo (take hi xs))"

text \<open>Every \<open>k\<close>-th element, starting with the first one.\<close>

fun every_nth :: "nat \<Rightarrow> 'a list \<Rightarrow> 'a list" where
  "every_nth k [] = []"
| "every_nth k (x # xs) = x # every_nth k (drop (k - 1) xs)"

text \<open>\<^verbatim>\<open>xs[start:stop:step]\<close> for a positive step.\<close>

definition py_slice_step :: "'a list \<Rightarrow> int option \<Rightarrow> int option \<Rightarrow> nat \<Rightarrow> 'a list" where
  "py_slice_step xs start stop step = every_nth step (py_slice xs start stop)"

text \<open>
  \<^verbatim>\<open>np.pad(y, (before, after))\<close> on a one-dimensional array: constant mode, zeros.
  A negative width is refused by NumPy.
\<close>

definition np_pad :: "'a::zero list \<Rightarrow> int \<Rightarrow> int \<Rightarrow> error + 'a list" where
  "np_pad y before after =
     (if before < 0 \<or> after < 0 then Inl (ValueError ''index can't contain negative values'')
      else Inr (replicate (nat before) 0 @ y @ replicate (nat after) 0))"

text \<open>
  \<^verbatim>\<open>repr\<close> of a string, as CPython writes it; a string is a list of code points
  below 256. The quote is the apostrophe unless the string holds an apostrophe and no
  double quote.
\<close>

definition hex_digit :: "nat \<Rightarrow> char" where
  "hex_digit d = ''0123456789abcdef'' ! (d mod 16)"

definition py_unprintable :: "char \<Rightarrow> bool" where
  "py_unprintable c =
     (let n = (of_char c :: nat)
      in n < 32 \<or> n = 127 \<or> (128 \<le> n \<and> n \<le> 160) \<or> n = 173)"

definition py_repr_char :: "char \<Rightarrow> char \<Rightarrow> string" where
  "py_repr_char quote c =
     (if c = quote \<or> c = CHR 0x5C then [CHR 0x5C, c]
      else if c = CHR 0x09 then [CHR 0x5C, CHR ''t'']
      else if c = CHR 0x0A then [CHR 0x5C, CHR ''n'']
      else if c = CHR 0x0D then [CHR 0x5C, CHR ''r'']
      else if py_unprintable c
        then [CHR 0x5C, CHR ''x'', hex_digit (of_char c div 16), hex_digit (of_char c mod 16)]
      else [c])"

definition py_repr :: "string \<Rightarrow> string" where
  "py_repr s =
     (let quote = (if CHR 0x27 \<in> set s \<and> CHR 0x22 \<notin> set s then CHR 0x22 else CHR 0x27)
      in [quote] @ concat (map (py_repr_char quote) s) @ [quote])"

subsection \<open>Alignment application and length reconciliation\<close>

text \<open>
  \<^verbatim>\<open>_align(x, y, offset, align_mode)\<close>, lines 125 to 130. There is no final
  \<^verbatim>\<open>else\<close>: any other mode falls through to \<^verbatim>\<open>return x, y\<close>.
\<close>

definition underscore_align ::
  "'a::zero list \<Rightarrow> 'a list \<Rightarrow> int \<Rightarrow> string \<Rightarrow> error + ('a list \<times> 'a list)" where
  "underscore_align x y offset align_mode =
     (if align_mode = ''crop'' then Inr (py_slice x (Some offset) None, y)
      else if align_mode = ''pad'' then
        (case np_pad y offset 0 of Inl e \<Rightarrow> Inl e | Inr y' \<Rightarrow> Inr (x, y'))
      else Inr (x, y))"

text \<open>\<^verbatim>\<open>_fix(x, y, fix_mode)\<close>, lines 133 to 147.\<close>

definition underscore_fix ::
  "'a::zero list \<Rightarrow> 'a list \<Rightarrow> string option \<Rightarrow> error + ('a list \<times> 'a list)" where
  "underscore_fix x y fix_mode =
     (case fix_mode of
        None \<Rightarrow> Inr (x, y)
      | Some m \<Rightarrow>
          if m = ''shortest'' then
            (let min_len = int (min (length x) (length y))
             in Inr (py_slice x None (Some min_len), py_slice y None (Some min_len)))
          else if m = ''longest'' then
            (let max_len = int (max (length x) (length y))
             in case np_pad x 0 (max_len - int (length x)) of
                  Inl e \<Rightarrow> Inl e
                | Inr x' \<Rightarrow>
                    (case np_pad y 0 (max_len - int (length y)) of
                       Inl e \<Rightarrow> Inl e
                     | Inr y' \<Rightarrow> Inr (x', y')))
          else Inl (ValueError (''fix_length='' @ py_repr m @ '' not understood'')))"

subsection \<open>Correlation scoring and the offset search\<close>

text \<open>
  \<^verbatim>\<open>np.corrcoef([x, y])[1, 0]\<close>: the two slices are stacked into one two-row array
  first, which NumPy refuses with a \<^verbatim>\<open>ValueError\<close> when their lengths differ (its
  message is shortened here); the coefficient itself is the parameter \<open>cc\<close>.
\<close>

definition np_corrcoef ::
  "('a list \<Rightarrow> 'a list \<Rightarrow> 'v score) \<Rightarrow> 'a list \<Rightarrow> 'a list \<Rightarrow> error + 'v score" where
  "np_corrcoef cc x y =
     (if length x \<noteq> length y then Inl (ValueError ''inhomogeneous shape'')
      else Inr (cc x y))"

text \<open>\<^verbatim>\<open>fast_autocorr(original, delayed, t)\<close>, lines 8 to 15.\<close>

definition fast_autocorr ::
  "('a list \<Rightarrow> 'a list \<Rightarrow> 'v score) \<Rightarrow> 'a list \<Rightarrow> 'a list \<Rightarrow> int \<Rightarrow> error + 'v score" where
  "fast_autocorr cc original delayed t =
     (if t = 0 then
        np_corrcoef cc (py_slice_step original None None 4) (py_slice_step delayed None None 4)
      else if t < 0 then
        np_corrcoef cc (py_slice_step original (Some (- t)) None 4)
                       (py_slice_step delayed None (Some t) 4)
      else
        np_corrcoef cc (py_slice_step original None (Some (- t)) 4)
                       (py_slice_step delayed (Some t) None 4))"

text \<open>
  \<^verbatim>\<open>np.argmax\<close> of a list of floats: the first NaN when there is one, the first
  occurrence of the maximum otherwise; an empty list is refused. \<open>argmax_from\<close> scans
  with the running best entry and its index.
\<close>

fun argmax_from :: "nat \<Rightarrow> 'v::linorder score \<Rightarrow> nat \<Rightarrow> 'v score list \<Rightarrow> nat" where
  "argmax_from bi best i [] = bi"
| "argmax_from bi NaN i (x # xs) = bi"
| "argmax_from bi (Val b) i (NaN # xs) = i"
| "argmax_from bi (Val b) i (Val v # xs) =
     (if b < v then argmax_from i (Val v) (Suc i) xs else argmax_from bi (Val b) (Suc i) xs)"

definition np_argmax :: "'v::linorder score list \<Rightarrow> error + nat" where
  "np_argmax coefs =
     (case coefs of
        [] \<Rightarrow> Inl (ValueError ''attempt to get argmax of an empty sequence'')
      | c # cs \<Rightarrow> Inr (argmax_from 0 c 1 cs))"

text \<open>
  The loop of lines 38 to 43: one coefficient per lag of \<^verbatim>\<open>range(lag, max_offset_samples)\<close>,
  in increasing order; an exception of the scorer leaves the loop.
\<close>

function coefs_loop ::
  "('a list \<Rightarrow> 'a list \<Rightarrow> 'v score) \<Rightarrow> 'a list \<Rightarrow> 'a list \<Rightarrow> int \<Rightarrow> int \<Rightarrow> error + 'v score list" where
  "coefs_loop cc original delayed lag max_offset_samples =
     (if max_offset_samples \<le> lag then Inr []
      else case fast_autocorr cc original delayed lag of
             Inl e \<Rightarrow> Inl e
           | Inr c \<Rightarrow>
               (case coefs_loop cc original delayed (lag + 1) max_offset_samples of
                  Inl e \<Rightarrow> Inl e
                | Inr cs \<Rightarrow> Inr (c # cs)))"
  by pat_completeness auto
termination
  by (relation "measure (\<lambda>(cc, original, delayed, lag, m). nat (m - lag))") auto

declare coefs_loop.simps [simp del]

text \<open>The window selection of lines 26 to 36.\<close>

definition lookahead_window ::
  "'a list \<Rightarrow> 'a list \<Rightarrow> int option \<Rightarrow> 'a list \<times> 'a list" where
  "lookahead_window original_signal delayed_signal lookahead_samples =
     (case lookahead_samples of
        None \<Rightarrow> (original_signal, delayed_signal)
      | Some la \<Rightarrow>
          if int (length original_signal) > la then
            (let middle_of_signal_index = int (length original_signal) div 2
             in (py_slice original_signal (Some middle_of_signal_index)
                   (Some (middle_of_signal_index + la)),
                 py_slice delayed_signal (Some middle_of_signal_index)
                   (Some (middle_of_signal_index + la))))
          else (original_signal, delayed_signal))"

text \<open>\<^verbatim>\<open>find_best_alignment_offset_with_corrcoef\<close>, lines 18 to 47.\<close>

definition find_best_alignment_offset_with_corrcoef ::
  "('a list \<Rightarrow> 'a list \<Rightarrow> 'v::linorder score) \<Rightarrow> 'a list \<Rightarrow> 'a list \<Rightarrow> int \<Rightarrow> int \<Rightarrow> int option
     \<Rightarrow> error + int" where
  "find_best_alignment_offset_with_corrcoef cc original_signal delayed_signal
       min_offset_samples max_offset_samples lookahead_samples =
     (case lookahead_window original_signal delayed_signal lookahead_samples of
        (original_signal_slice, delayed_signal_slice) \<Rightarrow>
          (case coefs_loop cc original_signal_slice delayed_signal_slice
                  min_offset_samples max_offset_samples of
             Inl e \<Rightarrow> Inl e
           | Inr coefs \<Rightarrow>
               (case np_argmax coefs of
                  Inl e \<Rightarrow> Inl e
                | Inr max_coef_index \<Rightarrow> Inr (int max_coef_index + min_offset_samples))))"

text \<open>
  \<^verbatim>\<open>find_best_alignment_offset\<close>, lines 50 to 96. The C routine takes the delayed
  signal first: its length and samples, then the reference's, then the two bounds. What
  the call returns or raises is the result of the search.
\<close>

type_synonym 'a native_routine =
  "nat \<Rightarrow> 'a list \<Rightarrow> nat \<Rightarrow> 'a list \<Rightarrow> int \<Rightarrow> int \<Rightarrow> error + int"

definition find_best_alignment_offset ::
  "'a native_routine \<Rightarrow> ('a list \<Rightarrow> 'a list \<Rightarrow> 'v::linorder score)
     \<Rightarrow> 'a ndarray \<Rightarrow> 'a ndarray \<Rightarrow> int \<Rightarrow> int option \<Rightarrow> string \<Rightarrow> error + int" where
  "find_best_alignment_offset native cc reference_signal delayed_signal
       max_offset_samples lookahead_samples method =
     (if {dtype reference_signal, dtype delayed_signal} \<noteq> {Float32}
        then Inl (AssertionError ''Arrays must be float32'')
      else if method = ''mse'' then
        (if \<not> (c_contiguous reference_signal \<and> c_contiguous delayed_signal)
           then Inl (AssertionError ''Arrays must be C-contiguous'')
         else
           (let lookahead =
                  (case lookahead_samples of
                     None \<Rightarrow> int (max (length (samples reference_signal))
                                       (length (samples delayed_signal)))
                   | Some la \<Rightarrow> la)
            in native (length (samples delayed_signal)) (samples delayed_signal)
                 (length (samples reference_signal)) (samples reference_signal)
                 max_offset_samples lookahead))
      else if method = ''corr'' then
        find_best_alignment_offset_with_corrcoef cc
          (samples reference_signal) (samples delayed_signal)
          (- max_offset_samples) max_offset_samples None
      else Inl (ValueError ''Unknown method''))"

text \<open>
  \<^verbatim>\<open>align\<close>, lines 99 to 122. The search is called without a method, so with the
  default \<^verbatim>\<open>"mse"\<close>. The result is the pair of the samples of the two returned arrays.
\<close>

definition align ::
  "'a::zero native_routine \<Rightarrow> ('a list \<Rightarrow> 'a list \<Rightarrow> 'v::linorder score)
     \<Rightarrow> 'a ndarray \<Rightarrow> 'a ndarray \<Rightarrow> int \<Rightarrow> int option \<Rightarrow> string \<Rightarrow> string option
     \<Rightarrow> error + ('a list \<times> 'a list)" where
  "align native cc a b max_offset max_lookahead align_mode fix_length =
     (case find_best_alignment_offset native cc a b max_offset max_lookahead ''mse'' of
        Inl e \<Rightarrow> Inl e
      | Inr offset \<Rightarrow>
          (case (if offset > 0 then underscore_align (samples a) (samples b) offset align_mode
                 else (case underscore_align (samples b) (samples a) (- offset) align_mode of
                         Inl e \<Rightarrow> Inl e
                       | Inr (b', a') \<Rightarrow> Inr (a', b'))) of
             Inl e \<Rightarrow> Inl e
           | Inr (a', b') \<Rightarrow> underscore_fix a' b' fix_length))"

subsection \<open>The order in which NumPy takes a maximum\<close>

text \<open>
  \<^verbatim>\<open>np.max\<close> and \<^verbatim>\<open>np.argmax\<close> propagate NaN: a NaN entry counts as the largest
  one, and values are compared as numbers. \<open>score_le a b\<close> says that \<open>b\<close> is at least
  as large as \<open>a\<close> in that order.
\<close>

fun score_le :: "'v::linorder score \<Rightarrow> 'v score \<Rightarrow> bool" where
  "score_le s NaN = True"
| "score_le NaN (Val b) = False"
| "score_le (Val a) (Val b) = (a \<le> b)"

subsection \<open>The C routine and the correlation coefficient\<close>

text \<open>
  Modelled from the spec: the C routine \<^verbatim>\<open>fast_find_alignment\<close> of the extension module
  \<^verbatim>\<open>_fast_align_audio\<close> is not among the sources. The specification says of it that
  \<^verbatim>\<open>max_offset_samples\<close> bounds its search range symmetrically and that the returned
  offset always lies within the search range, which for the symmetric search is the
  half-open interval from \<open>- max_offset_samples\<close> to \<open>max_offset_samples\<close>. The
  contract is about the offsets the call returns, for a positive \<^verbatim>\<open>max_offset_samples\<close>.
\<close>

definition native_range_contract :: "'a native_routine \<Rightarrow> bool" where
  "native_range_contract native =
     (\<forall>dl d rl r m la k.
        0 < m \<and> native dl d rl r m la = Inr k \<longrightarrow> - m \<le> k \<and> k < m)"

text \<open>
  \<^verbatim>\<open>np.corrcoef([x, y])[1, 0]\<close> with the floating-point operations read as exact real
  arithmetic: the covariance matrix with the divisor \<open>N - 1\<close>, the entry of row \<open>y\<close>
  and column \<open>x\<close> divided by the two standard deviations, clipped to \<open>[-1, 1]\<close>.
  Fewer than two samples or a constant row make NumPy divide zero by zero, which is NaN.
  It stands for the scorer in concrete searches whose result does not hang on the last
  bit of a score. Rounding makes the float64 coefficient differ from it by a unit in the
  last place or two: scores that are equal here, or equal for the two orders of the
  arguments, need not be equal in float64.
\<close>

definition mean :: "real list \<Rightarrow> real" where
  "mean xs = sum_list xs / real (length xs)"

definition cov_entry :: "real list \<Rightarrow> real list \<Rightarrow> real" where
  "cov_entry xs ys =
     sum_list (map2 (\<lambda>x y. (x - mean xs) * (y - mean ys)) xs ys) / (real (length xs) - 1)"

definition corrcoef_10 :: "real list \<Rightarrow> real list \<Rightarrow> real score" where
  "corrcoef_10 x y =
     (let c = cov_entry y x; d0 = cov_entry x x; d1 = cov_entry y y
      in if length x \<le> 1 \<or> d0 = 0 \<or> d1 = 0 then NaN
         else Val (max (- 1) (min 1 (c / sqrt d1 / sqrt d0))))"

text \<open>
  The values that float64 NumPy gives \<^verbatim>\<open>np.corrcoef([x, y])[1, 0]\<close> on the pairs of
  two-sample slices listed here. On these pairs the means, the deviations and the
  covariance matrix are exact; the two standard deviations are square roots rounded to
  the nearest double, and the coefficient is the covariance divided by the standard
  deviation of \<open>y\<close> and then by that of \<open>x\<close>, each quotient rounded to the nearest
  double. The double next below 1, printed \<^verbatim>\<open>0.9999999999999999\<close>, is
  \<open>1 - 1 / 2 ^ 53\<close>. On every other pair the coefficient of exact arithmetic stands in.
\<close>

definition corrcoef_10_float64_table :: "((real list \<times> real list) \<times> real) list" where
  "corrcoef_10_float64_table =
     [(([0, 5], [3, 0]), - 1),
      (([5, 0], [3, 0]), 1),
      (([5, 0], [15, 0]), 1 - 1 / 2 ^ 53),
      (([5, 0], [0, 3]), - 1),
      (([0, 3], [5, 0]), - 1),
      (([15, 0], [5, 0]), 1),
      (([3, 0], [5, 0]), 1),
      (([3, 0], [0, 5]), - 1),
      (([2, 0], [0, 2]), - (1 - 1 / 2 ^ 53)),
      (([2, 0], [2, 0]), 1 - 1 / 2 ^ 53),
      (([0, 2], [2, 0]), - (1 - 1 / 2 ^ 53))]"

definition corrcoef_10_float64 :: "real list \<Rightarrow> real list \<Rightarrow> real score" where
  "corrcoef_10_float64 x y =
     (case map_of corrcoef_10_float64_table (x, y) of
        Some v \<Rightarrow> Val v
      | None \<Rightarrow> corrcoef_10 x y)"

section \<open>Properties\<close>

subsection \<open>Slices and padding with non-negative bounds\<close>

lemma py_slice_from: "0 \<le> k \<Longrightarrow> py_slice x (Some k) None = drop (nat k) x"
  by (cases "nat k \<le> length x") (auto simp add: py_slice_def slice_index_def min_def Let_def)

lemma py_slice_to: "0 \<le> k \<Longrightarrow> py_slice x None (Some k) = take (nat k) x"
  by (cases "nat k \<le> length x") (auto simp add: py_slice_def slice_index_def min_def Let_def)

lemma np_pad_front: "0 \<le> k \<Longrightarrow> np_pad y k 0 = Inr (replicate (nat k) 0 @ y)"
  by (simp add: np_pad_def)

lemma np_pad_back: "0 \<le> k \<Longrightarrow> np_pad y 0 k = Inr (y @ replicate (nat k) 0)"
  by (simp add: np_pad_def)

subsection \<open>The arg-max scan and the coefficient loop\<close>

lemma score_le_Val_iff: "score_le s (Val b) = (\<exists>a. s = Val a \<and> a \<le> b)"
  by (cases s) auto

lemma argmax_from_spec:
  "bi < length pre \<Longrightarrow> pre ! bi = best \<Longrightarrow> i = length pre \<Longrightarrow>
   (\<forall>j<length pre. score_le (pre ! j) best) \<Longrightarrow>
   (\<forall>j<bi. \<not> score_le best (pre ! j)) \<Longrightarrow>
   argmax_from bi best i xs < length (pre @ xs) \<and>
   (\<forall>j<length (pre @ xs). score_le ((pre @ xs) ! j) ((pre @ xs) ! argmax_from bi best i xs)) \<and>
   (\<forall>j<argmax_from bi best i xs.
      \<not> score_le ((pre @ xs) ! argmax_from bi best i xs) ((pre @ xs) ! j))"
proof (induction xs arbitrary: pre bi best i)
  case Nil
  then show ?case by simp
next
  case (Cons x xs)
  show ?case
  proof (cases best)
    case NaN
    with Cons.prems show ?thesis by (simp add: nth_append)
  next
    case (Val b)
    note best = Val
    show ?thesis
    proof (cases x)
      case NaN
      have "\<forall>j<length pre. \<exists>a. pre ! j = Val a"
        using Cons.prems(4) best by (simp add: score_le_Val_iff) blast
      then show ?thesis using Cons.prems NaN best
        by (auto simp add: nth_append)
    next
      case (Val v)
      show ?thesis
      proof (cases "b < v")
        case True
        have IH: "argmax_from i (Val v) (Suc i) xs < length ((pre @ [x]) @ xs) \<and>
          (\<forall>j<length ((pre @ [x]) @ xs). score_le (((pre @ [x]) @ xs) ! j)
              (((pre @ [x]) @ xs) ! argmax_from i (Val v) (Suc i) xs)) \<and>
          (\<forall>j<argmax_from i (Val v) (Suc i) xs.
            \<not> score_le (((pre @ [x]) @ xs) ! argmax_from i (Val v) (Suc i) xs)
                (((pre @ [x]) @ xs) ! j))"
        proof (rule Cons.IH)
          show "i < length (pre @ [x])" using Cons.prems(3) by simp
          show "(pre @ [x]) ! i = Val v" using Cons.prems(3) Val by simp
          show "Suc i = length (pre @ [x])" using Cons.prems(3) by simp
          show "\<forall>j<length (pre @ [x]). score_le ((pre @ [x]) ! j) (Val v)"
            using Cons.prems(3,4) best Val True
            by (auto simp add: nth_append score_le_Val_iff less_Suc_eq)
          show "\<forall>j<i. \<not> score_le (Val v) ((pre @ [x]) ! j)"
            using Cons.prems(3,4) best Val True
            by (auto simp add: nth_append score_le_Val_iff)
        qed
        then show ?thesis using best Val True by simp
      next
        case False
        have IH: "argmax_from bi (Val b) (Suc i) xs < length ((pre @ [x]) @ xs) \<and>
          (\<forall>j<length ((pre @ [x]) @ xs). score_le (((pre @ [x]) @ xs) ! j)
              (((pre @ [x]) @ xs) ! argmax_from bi (Val b) (Suc i) xs)) \<and>
          (\<forall>j<argmax_from bi (Val b) (Suc i) xs.
            \<not> score_le (((pre @ [x]) @ xs) ! argmax_from bi (Val b) (Suc i) xs)
                (((pre @ [x]) @ xs) ! j))"
        proof (rule Cons.IH)
          show "bi < length (pre @ [x])" using Cons.prems(1) by simp
          show "(pre @ [x]) ! bi = Val b" using Cons.prems(1,2) best by (simp add: nth_append)
          show "Suc i = length (pre @ [x])" using Cons.prems(3) by simp
          show "\<forall>j<length (pre @ [x]). score_le ((pre @ [x]) ! j) (Val b)"
            using Cons.prems(3,4) best Val False
            by (auto simp add: nth_append less_Suc_eq)
          show "\<forall>j<bi. \<not> score_le (Val b) ((pre @ [x]) ! j)"
            using Cons.prems(1,3,5) best by (auto simp add: nth_append)
        qed
        then show ?thesis using best Val False by simp
      qed
    qed
  qed
qed

lemma np_argmax_spec:
  assumes "np_argmax cs = Inr r"
  shows "r < length cs \<and> (\<forall>j<length cs. score_le (cs ! j) (cs ! r)) \<and>
         (\<forall>j<r. \<not> score_le (cs ! r) (cs ! j))"
proof (cases cs)
  case Nil
  with assms show ?thesis by (simp add: np_argmax_def)
next
  case (Cons c cs')
  then have r: "r = argmax_from 0 c 1 cs'" using assms by (simp add: np_argmax_def)
  have "score_le c c" by (cases c) auto
  then show ?thesis
    using argmax_from_spec[of 0 "[c]" c 1 cs'] r Cons by simp
qed

lemma np_argmax_total: "cs \<noteq> [] \<Longrightarrow> \<exists>r. np_argmax cs = Inr r"
  by (cases cs) (simp_all add: np_argmax_def)

lemma coefs_loop_Inr:
  "coefs_loop cc a b lo hi = Inr cs \<Longrightarrow>
   length cs = nat (hi - lo) \<and>
   (\<forall>j<length cs. fast_autocorr cc a b (lo + int j) = Inr (cs ! j))"
proof (induction cc a b lo hi arbitrary: cs rule: coefs_loop.induct)
  case (1 cc a b lag m)
  show ?case
  proof (cases "m \<le> lag")
    case True
    with "1.prems" show ?thesis by (simp add: coefs_loop.simps)
  next
    case False
    from "1.prems" False obtain c cs' where
      c: "fast_autocorr cc a b lag = Inr c" and
      cs': "coefs_loop cc a b (lag + 1) m = Inr cs'" and
      cs: "cs = c # cs'"
      by (subst (asm) coefs_loop.simps) (auto split: sum.splits)
    have IH: "length cs' = nat (m - (lag + 1)) \<and>
        (\<forall>j<length cs'. fast_autocorr cc a b (lag + 1 + int j) = Inr (cs' ! j))"
      using "1.IH"[OF False c cs'] .
    have len: "length cs = nat (m - lag)" using IH cs False by simp
    have "fast_autocorr cc a b (lag + int j) = Inr (cs ! j)" if "j < length cs" for j
    proof (cases j)
      case 0
      then show ?thesis using c cs by simp
    next
      case (Suc j')
      then have "j' < length cs'" using that cs by simp
      then have "fast_autocorr cc a b (lag + 1 + int j') = Inr (cs' ! j')" using IH by blast
      then show ?thesis using Suc cs by (simp add: add.assoc)
    qed
    then show ?thesis using len by blast
  qed
qed

lemma coefs_loop_total:
  "(\<forall>t. lo \<le> t \<and> t < hi \<longrightarrow> (\<exists>s. fast_autocorr cc a b t = Inr s)) \<Longrightarrow>
   \<exists>cs. coefs_loop cc a b lo hi = Inr cs"
proof (induction cc a b lo hi rule: coefs_loop.induct)
  case (1 cc a b lag m)
  show ?case
  proof (cases "m \<le> lag")
    case True
    then show ?thesis by (simp add: coefs_loop.simps)
  next
    case False
    then obtain c where c: "fast_autocorr cc a b lag = Inr c" using "1.prems" by force
    have "\<exists>cs. coefs_loop cc a b (lag + 1) m = Inr cs"
      using "1.IH"[OF False c] "1.prems" by simp
    then obtain cs' where "coefs_loop cc a b (lag + 1) m = Inr cs'" by blast
    then show ?thesis using c False by (subst coefs_loop.simps) simp
  qed
qed

subsection \<open>Length reconciliation\<close>

text \<open>
  C6. For every pair of signals: with \<^verbatim>\<open>fix_length="shortest"\<close> both results are the
  leading \<open>min (len x) (len y)\<close> samples of the inputs, so both have that length; with
  \<^verbatim>\<open>"longest"\<close> each input is followed by as many zeros as it lacks to
  \<open>max (len x) (len y)\<close>, so both have that length and the longer one is unchanged;
  with \<^verbatim>\<open>None\<close> the pair is returned as it is.
\<close>

theorem fix_length_modes:
  "underscore_fix x y None = Inr (x, y) \<and>
   underscore_fix x y (Some ''shortest'') =
     Inr (take (min (length x) (length y)) x, take (min (length x) (length y)) y) \<and>
   length (take (min (length x) (length y)) x) = min (length x) (length y) \<and>
   length (take (min (length x) (length y)) y) = min (length x) (length y) \<and>
   underscore_fix x y (Some ''longest'') =
     Inr (x @ replicate (max (length x) (length y) - length x) 0,
          y @ replicate (max (length x) (length y) - length y) 0) \<and>
   length (x @ replicate (max (length x) (length y) - length x) (0::'a::zero))
     = max (length x) (length y) \<and>
   length (y @ replicate (max (length x) (length y) - length y) (0::'a))
     = max (length x) (length y)"
proof -
  have shortest: "underscore_fix x y (Some ''shortest'') =
     Inr (take (min (length x) (length y)) x, take (min (length x) (length y)) y)"
    by (simp add: underscore_fix_def py_slice_to Let_def)
  have px: "np_pad x 0 (int (max (length x) (length y)) - int (length x))
      = Inr (x @ replicate (max (length x) (length y) - length x) 0)"
    by (subst np_pad_back) (simp_all add: nat_diff_distrib')
  have py: "np_pad y 0 (int (max (length x) (length y)) - int (length y))
      = Inr (y @ replicate (max (length x) (length y) - length y) 0)"
    by (subst np_pad_back) (simp_all add: nat_diff_distrib')
  have longest: "underscore_fix x y (Some ''longest'') =
     Inr (x @ replicate (max (length x) (length y) - length x) 0,
          y @ replicate (max (length x) (length y) - length y) 0)"
    unfolding underscore_fix_def Let_def by (simp add: px py)
  show ?thesis using shortest longest by (simp add: underscore_fix_def)
qed

subsection \<open>Applying the offset\<close>

lemma underscore_align_nonneg:
  "0 \<le> k \<Longrightarrow>
   underscore_align x y k mode =
     Inr (if mode = ''crop'' then (drop (nat k) x, y)
          else if mode = ''pad'' then (x, replicate (nat k) 0 @ y)
          else (x, y))"
  by (simp add: underscore_align_def py_slice_from np_pad_front)

lemma align_unfold:
  "find_best_alignment_offset native cc a b max_offset max_lookahead ''mse'' = Inr k \<Longrightarrow>
   align native cc a b max_offset max_lookahead mode fl =
     (if 0 < k then
        (case (if mode = ''crop'' then (drop (nat k) (samples a), samples b)
               else if mode = ''pad'' then (samples a, replicate (nat k) 0 @ samples b)
               else (samples a, samples b)) of (a', b') \<Rightarrow> underscore_fix a' b' fl)
      else
        (case (if mode = ''crop'' then (samples a, drop (nat (- k)) (samples b))
               else if mode = ''pad'' then (replicate (nat (- k)) 0 @ samples a, samples b)
               else (samples a, samples b)) of (a', b') \<Rightarrow> underscore_fix a' b' fl))"
  by (simp add: align_def underscore_align_nonneg)

text \<open>
  C3. For every pair of arrays and every offset \<open>k\<close> the search returns: if \<open>k > 0\<close>,
  crop mode returns \<open>a\<close> without its first \<open>k\<close> samples and \<open>b\<close> unchanged, and pad
  mode returns \<open>a\<close> unchanged and \<open>b\<close> behind \<open>k\<close> zeros, \<open>k\<close> samples longer; if
  \<open>k \<le> 0\<close> the same is done with the roles of \<open>a\<close> and \<open>b\<close> exchanged and the lag
  \<open>- k\<close>, and the pair comes back in the order \<open>(a, b)\<close>. (No length fixing.)
\<close>

theorem align_applies_offset:
  assumes "find_best_alignment_offset native cc a b max_offset max_lookahead ''mse'' = Inr k"
  shows "(0 < k \<longrightarrow>
            align native cc a b max_offset max_lookahead ''crop'' None
              = Inr (drop (nat k) (samples a), samples b) \<and>
            align native cc a b max_offset max_lookahead ''pad'' None
              = Inr (samples a, replicate (nat k) 0 @ samples b) \<and>
            length (replicate (nat k) (0::'a::zero) @ samples b) = length (samples b) + nat k) \<and>
         (k \<le> 0 \<longrightarrow>
            align native cc a b max_offset max_lookahead ''crop'' None
              = Inr (samples a, drop (nat (- k)) (samples b)) \<and>
            align native cc a b max_offset max_lookahead ''pad'' None
              = Inr (replicate (nat (- k)) 0 @ samples a, samples b) \<and>
            length (replicate (nat (- k)) (0::'a) @ samples a) = length (samples a) + nat (- k))"
  using assms by (simp add: align_unfold underscore_fix_def)

theorem align_applies_offset_witness:
  "align (\<lambda>dl d rl r m la. Inr 2) (\<lambda>x y. (NaN :: int score))
     \<lparr>dtype = Float32, c_contiguous = True, samples = [1, 2, 3, 4, 5, 6, 7, 8 :: int]\<rparr>
     \<lparr>dtype = Float32, c_contiguous = True, samples = [0, 0, 1, 2, 3, 4, 5, 6]\<rparr>
     3 None ''crop'' None
     = Inr ([3, 4, 5, 6, 7, 8], [0, 0, 1, 2, 3, 4, 5, 6]) \<and>
   align (\<lambda>dl d rl r m la. Inr 2) (\<lambda>x y. (NaN :: int score))
     \<lparr>dtype = Float32, c_contiguous = True, samples = [1, 2, 3, 4, 5, 6, 7, 8 :: int]\<rparr>
     \<lparr>dtype = Float32, c_contiguous = True, samples = [0, 0, 1, 2, 3, 4, 5, 6]\<rparr>
     3 None ''pad'' None
     = Inr ([1, 2, 3, 4, 5, 6, 7, 8], [0, 0, 0, 0, 1, 2, 3, 4, 5, 6]) \<and>
   align (\<lambda>dl d rl r m la. Inr (- 1)) (\<lambda>x y. (NaN :: int score))
     \<lparr>dtype = Float32, c_contiguous = True, samples = [7, 1, 2, 3 :: int]\<rparr>
     \<lparr>dtype = Float32, c_contiguous = True, samples = [1, 2, 3]\<rparr>
     3 None ''crop'' None
     = Inr ([7, 1, 2, 3], [2, 3]) \<and>
   align (\<lambda>dl d rl r m la. Inr (- 1)) (\<lambda>x y. (NaN :: int score))
     \<lparr>dtype = Float32, c_contiguous = True, samples = [7, 1, 2, 3 :: int]\<rparr>
     \<lparr>dtype = Float32, c_contiguous = True, samples = [1, 2, 3]\<rparr>
     3 None ''pad'' None
     = Inr ([0, 7, 1, 2, 3], [1, 2, 3])"
proof -
  have s1: "find_best_alignment_offset (\<lambda>dl d rl r m la. Inr 2) (\<lambda>x y. (NaN :: int score))
     \<lparr>dtype = Float32, c_contiguous = True, samples = [1, 2, 3, 4, 5, 6, 7, 8 :: int]\<rparr>
     \<lparr>dtype = Float32, c_contiguous = True, samples = [0, 0, 1, 2, 3, 4, 5, 6]\<rparr>
     3 None ''mse'' = Inr 2"
    by (simp add: find_best_alignment_offset_def)
  have s2: "find_best_alignment_offset (\<lambda>dl d rl r m la. Inr (- 1)) (\<lambda>x y. (NaN :: int score))
     \<lparr>dtype = Float32, c_contiguous = True, samples = [7, 1, 2, 3 :: int]\<rparr>
     \<lparr>dtype = Float32, c_contiguous = True, samples = [1, 2, 3]\<rparr>
     3 None ''mse'' = Inr (- 1)"
    by (simp add: find_best_alignment_offset_def)
  show ?thesis
    using align_applies_offset [OF s1] align_applies_offset [OF s2]
    by (simp add: numeral_eq_Suc)
qed

text \<open>
  C7. When the search returns the offset 0, \<^verbatim>\<open>align\<close> without length fixing returns
  the samples of both inputs unchanged, in crop mode and in pad mode.
\<close>

theorem zero_offset_identity:
  assumes "find_best_alignment_offset native cc a b max_offset max_lookahead ''mse'' = Inr 0"
  shows "align native cc a b max_offset max_lookahead ''crop'' None = Inr (samples a, samples b) \<and>
         align native cc a b max_offset max_lookahead ''pad'' None = Inr (samples a, samples b)"
  using assms by (simp add: align_unfold underscore_fix_def)

theorem zero_offset_identity_witness:
  "align (\<lambda>dl d rl r m la. Inr 0) (\<lambda>x y. (NaN :: int score))
     \<lparr>dtype = Float32, c_contiguous = True, samples = [1, 2, 3 :: int]\<rparr>
     \<lparr>dtype = Float32, c_contiguous = True, samples = [1, 2, 3, 4]\<rparr>
     2 (Some 3) ''crop'' None = Inr ([1, 2, 3], [1, 2, 3, 4]) \<and>
   align (\<lambda>dl d rl r m la. Inr 0) (\<lambda>x y. (NaN :: int score))
     \<lparr>dtype = Float32, c_contiguous = True, samples = [1, 2, 3 :: int]\<rparr>
     \<lparr>dtype = Float32, c_contiguous = True, samples = [1, 2, 3, 4]\<rparr>
     2 (Some 3) ''pad'' None = Inr ([1, 2, 3], [1, 2, 3, 4])"
proof -
  have s: "find_best_alignment_offset (\<lambda>dl d rl r m la. Inr 0) (\<lambda>x y. (NaN :: int score))
     \<lparr>dtype = Float32, c_contiguous = True, samples = [1, 2, 3 :: int]\<rparr>
     \<lparr>dtype = Float32, c_contiguous = True, samples = [1, 2, 3, 4]\<rparr>
     2 (Some 3) ''mse'' = Inr 0"
    by (simp add: find_best_alignment_offset_def)
  show ?thesis using zero_offset_identity [OF s] by simp
qed

subsection \<open>Unrecognised configuration values\<close>

text \<open>
  C2, as stated, fails: \<^verbatim>\<open>_align\<close> has no branch for an unrecognised
  \<^verbatim>\<open>align_mode\<close>, so \<^verbatim>\<open>align\<close> returns the input pair instead of raising; and the
  error for an unrecognised method is the fixed message \<^verbatim>\<open>Unknown method\<close>, which does
  not name the value.
\<close>

theorem unknown_align_mode_counterexample:
  "align (\<lambda>dl d rl r m la. Inr 1) (\<lambda>x y. (NaN :: int score))
     \<lparr>dtype = Float32, c_contiguous = True, samples = [1, 2, 3 :: int]\<rparr>
     \<lparr>dtype = Float32, c_contiguous = True, samples = [4, 5, 6]\<rparr>
     2 None ''diagonal'' None = Inr ([1, 2, 3], [4, 5, 6]) \<and>
   underscore_align [1, 2, 3 :: int] [4, 5, 6] 1 ''diagonal'' = Inr ([1, 2, 3], [4, 5, 6]) \<and>
   find_best_alignment_offset (\<lambda>dl d rl r m la. Inr 1) (\<lambda>x y. (NaN :: int score))
     \<lparr>dtype = Float32, c_contiguous = True, samples = [1, 2, 3 :: int]\<rparr>
     \<lparr>dtype = Float32, c_contiguous = True, samples = [4, 5, 6]\<rparr>
     2 None ''fft'' = Inl (ValueError ''Unknown method'')"
  by (simp add: align_def find_best_alignment_offset_def underscore_align_def underscore_fix_def)

lemma underscore_fix_unknown:
  "m \<noteq> ''shortest'' \<Longrightarrow> m \<noteq> ''longest'' \<Longrightarrow>
   underscore_fix x y (Some m) = Inl (ValueError (''fix_length='' @ py_repr m @ '' not understood''))"
  by (simp add: underscore_fix_def)

lemma align_fix_unknown:
  "m \<noteq> ''shortest'' \<Longrightarrow> m \<noteq> ''longest'' \<Longrightarrow>
   find_best_alignment_offset native cc a b max_offset la ''mse'' = Inr k \<Longrightarrow>
   align native cc a b max_offset la mode (Some m)
     = Inl (ValueError (''fix_length='' @ py_repr m @ '' not understood''))"
  by (simp add: align_unfold underscore_fix_unknown del: append.simps)

text \<open>
  C2, amended. Once the float32 assertion has passed, an unrecognised method makes the
  offset search raise \<^verbatim>\<open>ValueError("Unknown method")\<close>. An unrecognised
  \<^verbatim>\<open>fix_length\<close> makes \<^verbatim>\<open>_fix\<close> raise a \<^verbatim>\<open>ValueError\<close> whose message holds the
  \<^verbatim>\<open>repr\<close> of the value, and so does \<^verbatim>\<open>align\<close> whenever its search has returned an
  offset, whatever the align mode. No result pair is returned in these cases.
\<close>

theorem unknown_method_and_fix_length:
  "(method \<noteq> ''mse'' \<and> method \<noteq> ''corr'' \<and> {dtype r, dtype d} = {Float32} \<longrightarrow>
      find_best_alignment_offset native cc r d max_offset la method
        = Inl (ValueError ''Unknown method'')) \<and>
   (m \<noteq> ''shortest'' \<and> m \<noteq> ''longest'' \<longrightarrow>
      underscore_fix x y (Some m)
        = Inl (ValueError (''fix_length='' @ py_repr m @ '' not understood'')) \<and>
      (\<forall>k. find_best_alignment_offset native cc a b max_offset la ''mse'' = Inr k \<longrightarrow>
         align native cc a b max_offset la mode (Some m)
           = Inl (ValueError (''fix_length='' @ py_repr m @ '' not understood''))))"
proof (intro conjI impI allI)
  assume "method \<noteq> ''mse'' \<and> method \<noteq> ''corr'' \<and> {dtype r, dtype d} = {Float32}"
  then show "find_best_alignment_offset native cc r d max_offset la method
        = Inl (ValueError ''Unknown method'')"
    by (simp add: find_best_alignment_offset_def)
next
  assume "m \<noteq> ''shortest'' \<and> m \<noteq> ''longest''"
  then show "underscore_fix x y (Some m)
        = Inl (ValueError (''fix_length='' @ py_repr m @ '' not understood''))"
    using underscore_fix_unknown by blast
next
  fix k
  assume "m \<noteq> ''shortest'' \<and> m \<noteq> ''longest''"
    and "find_best_alignment_offset native cc a b max_offset la ''mse'' = Inr k"
  then show "align native cc a b max_offset la mode (Some m)
           = Inl (ValueError (''fix_length='' @ py_repr m @ '' not understood''))"
    using align_fix_unknown by blast
qed

theorem unknown_method_and_fix_length_witness:
  "find_best_alignment_offset (\<lambda>dl d rl r m la. Inr 1) (\<lambda>x y. (NaN :: int score))
     \<lparr>dtype = Float32, c_contiguous = True, samples = [1, 2, 3 :: int]\<rparr>
     \<lparr>dtype = Float32, c_contiguous = True, samples = [4, 5, 6]\<rparr>
     2 None ''fft'' = Inl (ValueError ''Unknown method'') \<and>
   underscore_fix [1, 2 :: int] [3] (Some ''both'')
     = Inl (ValueError (''fix_length='' @ [CHR 0x27] @ ''both'' @ [CHR 0x27] @ '' not understood'')) \<and>
   align (\<lambda>dl d rl r m la. Inr 1) (\<lambda>x y. (NaN :: int score))
     \<lparr>dtype = Float32, c_contiguous = True, samples = [1, 2, 3 :: int]\<rparr>
     \<lparr>dtype = Float32, c_contiguous = True, samples = [4, 5, 6]\<rparr>
     2 None ''crop'' (Some ''both'')
     = Inl (ValueError (''fix_length='' @ [CHR 0x27] @ ''both'' @ [CHR 0x27] @ '' not understood''))"
proof -
  have s: "find_best_alignment_offset (\<lambda>dl d rl r m la. Inr 1) (\<lambda>x y. (NaN :: int score))
     \<lparr>dtype = Float32, c_contiguous = True, samples = [1, 2, 3 :: int]\<rparr>
     \<lparr>dtype = Float32, c_contiguous = True, samples = [4, 5, 6]\<rparr>
     2 None ''mse'' = Inr 1"
    by (simp add: find_best_alignment_offset_def)
  have r: "py_repr ''both'' = [CHR 0x27] @ ''both'' @ [CHR 0x27]"
    by (simp add: py_repr_def py_repr_char_def py_unprintable_def Let_def)
  show ?thesis
    using unknown_method_and_fix_length
      [of "''fft''"
          "\<lparr>dtype = Float32, c_contiguous = True, samples = [1, 2, 3 :: int]\<rparr>"
          "\<lparr>dtype = Float32, c_contiguous = True, samples = [4, 5, 6]\<rparr>"
          "\<lambda>dl d rl r m la. Inr 1" "\<lambda>x y. (NaN :: int score)" 2 None
          "''both''" "[1, 2 :: int]" "[3]"
          "\<lparr>dtype = Float32, c_contiguous = True, samples = [1, 2, 3 :: int]\<rparr>"
          "\<lparr>dtype = Float32, c_contiguous = True, samples = [4, 5, 6]\<rparr>"
          "''crop''"] s r
    by simp
qed

subsection \<open>Input assertions of the offset search\<close>

text \<open>
  C8. The offset search raises \<^verbatim>\<open>AssertionError\<close> whenever the two arrays are not both
  float32, in particular whenever their element types differ, whatever the method; with
  the method \<^verbatim>\<open>"mse"\<close> it raises when either array is not C-contiguous; with any other
  method its result does not depend on the contiguity flags.
\<close>

theorem search_input_assertions:
  "({dtype r, dtype d} \<noteq> {Float32} \<longrightarrow>
      find_best_alignment_offset native cc r d max_offset la method
        = Inl (AssertionError ''Arrays must be float32'')) \<and>
   (dtype r \<noteq> dtype d \<longrightarrow> {dtype r, dtype d} \<noteq> {Float32}) \<and>
   ({dtype r, dtype d} = {Float32} \<and> \<not> (c_contiguous r \<and> c_contiguous d) \<longrightarrow>
      find_best_alignment_offset native cc r d max_offset la ''mse''
        = Inl (AssertionError ''Arrays must be C-contiguous'')) \<and>
   (method \<noteq> ''mse'' \<longrightarrow>
      find_best_alignment_offset native cc (r\<lparr>c_contiguous := f\<rparr>) (d\<lparr>c_contiguous := g\<rparr>)
          max_offset la method
        = find_best_alignment_offset native cc r d max_offset la method)"
  by (auto simp add: find_best_alignment_offset_def)

theorem search_input_assertions_witness:
  "find_best_alignment_offset (\<lambda>dl d rl r m la. Inr 1) (\<lambda>x y. (NaN :: int score))
     \<lparr>dtype = Float32, c_contiguous = True, samples = [1, 2, 3 :: int]\<rparr>
     \<lparr>dtype = Float64, c_contiguous = True, samples = [4, 5, 6]\<rparr>
     2 None ''corr'' = Inl (AssertionError ''Arrays must be float32'') \<and>
   find_best_alignment_offset (\<lambda>dl d rl r m la. Inr 1) (\<lambda>x y. (NaN :: int score))
     \<lparr>dtype = Float32, c_contiguous = False, samples = [1, 2, 3 :: int]\<rparr>
     \<lparr>dtype = Float32, c_contiguous = True, samples = [4, 5, 6]\<rparr>
     2 None ''mse'' = Inl (AssertionError ''Arrays must be C-contiguous'') \<and>
   find_best_alignment_offset (\<lambda>dl d rl r m la. Inr 1) (\<lambda>x y. (NaN :: int score))
     \<lparr>dtype = Float32, c_contiguous = False, samples = [1, 2, 3 :: int]\<rparr>
     \<lparr>dtype = Float32, c_contiguous = False, samples = [4, 5, 6]\<rparr>
     2 None ''corr''
   = find_best_alignment_offset (\<lambda>dl d rl r m la. Inr 1) (\<lambda>x y. (NaN :: int score))
     \<lparr>dtype = Float32, c_contiguous = True, samples = [1, 2, 3 :: int]\<rparr>
     \<lparr>dtype = Float32, c_contiguous = True, samples = [4, 5, 6]\<rparr>
     2 None ''corr''"
  using search_input_assertions
      [of "\<lparr>dtype = Float32, c_contiguous = True, samples = [1, 2, 3 :: int]\<rparr>"
          "\<lparr>dtype = Float64, c_contiguous = True, samples = [4, 5, 6]\<rparr>"
          "\<lambda>dl d rl r m la. Inr 1" "\<lambda>x y. (NaN :: int score)" 2 None "''corr''"]
    search_input_assertions
      [of "\<lparr>dtype = Float32, c_contiguous = False, samples = [1, 2, 3 :: int]\<rparr>"
          "\<lparr>dtype = Float32, c_contiguous = True, samples = [4, 5, 6]\<rparr>"
          "\<lambda>dl d rl r m la. Inr 1" "\<lambda>x y. (NaN :: int score)" 2 None "''corr''"]
    search_input_assertions
      [of "\<lparr>dtype = Float32, c_contiguous = True, samples = [1, 2, 3 :: int]\<rparr>"
          "\<lparr>dtype = Float32, c_contiguous = True, samples = [4, 5, 6]\<rparr>"
          "\<lambda>dl d rl r m la. Inr 1" "\<lambda>x y. (NaN :: int score)" 2 None "''corr''" False False]
  by simp

subsection \<open>\<^verbatim>\<open>align\<close> searches with the default method\<close>

text \<open>
  C10. \<^verbatim>\<open>align\<close> never uses the correlation scorer: its result is the same for every
  scorer. It raises \<^verbatim>\<open>AssertionError\<close> unless both arrays are float32 and C-contiguous.
  For such arrays its search is the call of the C routine with the delayed and the
  reference samples, \<^verbatim>\<open>max_offset\<close> and the lookahead (\<^verbatim>\<open>max_lookahead\<close>, or the
  larger length when it is \<^verbatim>\<open>None\<close>): an exception of the call is the result of
  \<^verbatim>\<open>align\<close>, and a value \<open>k\<close> of the call is the offset that \<^verbatim>\<open>align\<close> applies, so that
  crop mode drops \<open>k\<close> leading samples of \<open>a\<close> (or \<open>- k\<close> of \<open>b\<close>) and pad mode
  puts as many zeros in front of the other signal. \<^verbatim>\<open>align\<close> depends on the routine
  through that one call only, and \<^verbatim>\<open>max_lookahead\<close> goes nowhere else.
\<close>

theorem align_always_mse:
  "align native cc a b max_offset max_lookahead mode fl
     = align native cc' a b max_offset max_lookahead mode fl \<and>
   ({dtype a, dtype b} \<noteq> {Float32} \<longrightarrow>
      align native cc a b max_offset max_lookahead mode fl
        = Inl (AssertionError ''Arrays must be float32'')) \<and>
   ({dtype a, dtype b} = {Float32} \<and> \<not> (c_contiguous a \<and> c_contiguous b) \<longrightarrow>
      align native cc a b max_offset max_lookahead mode fl
        = Inl (AssertionError ''Arrays must be C-contiguous'')) \<and>
   ({dtype a, dtype b} = {Float32} \<and> c_contiguous a \<and> c_contiguous b \<longrightarrow>
      find_best_alignment_offset native cc a b max_offset max_lookahead ''mse''
        = native (length (samples b)) (samples b) (length (samples a)) (samples a)
              max_offset
              (case max_lookahead of
                 None \<Rightarrow> int (max (length (samples a)) (length (samples b)))
               | Some la \<Rightarrow> la) \<and>
      (native (length (samples b)) (samples b) (length (samples a)) (samples a)
              max_offset
              (case max_lookahead of
                 None \<Rightarrow> int (max (length (samples a)) (length (samples b)))
               | Some la \<Rightarrow> la) = Inl e \<longrightarrow>
         align native cc a b max_offset max_lookahead mode fl = Inl e) \<and>
      (native (length (samples b)) (samples b) (length (samples a)) (samples a)
              max_offset
              (case max_lookahead of
                 None \<Rightarrow> int (max (length (samples a)) (length (samples b)))
               | Some la \<Rightarrow> la) = Inr k \<longrightarrow>
         align native cc a b max_offset max_lookahead mode fl
           = (case (if 0 < k then underscore_align (samples a) (samples b) k mode
                    else (case underscore_align (samples b) (samples a) (- k) mode of
                            Inl e \<Rightarrow> Inl e
                          | Inr (b', a') \<Rightarrow> Inr (a', b'))) of
                Inl e \<Rightarrow> Inl e
              | Inr (a', b') \<Rightarrow> underscore_fix a' b' fl) \<and>
         align native cc a b max_offset max_lookahead ''crop'' None
           = Inr (if 0 < k then (drop (nat k) (samples a), samples b)
                  else (samples a, drop (nat (- k)) (samples b))) \<and>
         align native cc a b max_offset max_lookahead ''pad'' None
           = Inr (if 0 < k then (samples a, replicate (nat k) 0 @ samples b)
                  else (replicate (nat (- k)) 0 @ samples a, samples b))) \<and>
      (native' (length (samples b)) (samples b) (length (samples a)) (samples a)
              max_offset
              (case max_lookahead of
                 None \<Rightarrow> int (max (length (samples a)) (length (samples b)))
               | Some la \<Rightarrow> la) = native (length (samples b)) (samples b) (length (samples a)) (samples a)
              max_offset
              (case max_lookahead of
                 None \<Rightarrow> int (max (length (samples a)) (length (samples b)))
               | Some la \<Rightarrow> la) \<longrightarrow>
         align native' cc a b max_offset max_lookahead mode fl
           = align native cc a b max_offset max_lookahead mode fl))"
proof (intro conjI impI)
  show "align native cc a b max_offset max_lookahead mode fl
     = align native cc' a b max_offset max_lookahead mode fl"
    by (simp add: align_def find_best_alignment_offset_def)
  show "align native cc a b max_offset max_lookahead mode fl
        = Inl (AssertionError ''Arrays must be float32'')"
    if "{dtype a, dtype b} \<noteq> {Float32}"
    using that by (simp add: align_def find_best_alignment_offset_def)
  show "align native cc a b max_offset max_lookahead mode fl
        = Inl (AssertionError ''Arrays must be C-contiguous'')"
    if "{dtype a, dtype b} = {Float32} \<and> \<not> (c_contiguous a \<and> c_contiguous b)"
    using that by (simp add: align_def find_best_alignment_offset_def)
next
  assume v: "{dtype a, dtype b} = {Float32} \<and> c_contiguous a \<and> c_contiguous b"
  show s: "find_best_alignment_offset native cc a b max_offset max_lookahead ''mse''
        = native (length (samples b)) (samples b) (length (samples a)) (samples a)
              max_offset
              (case max_lookahead of
                 None \<Rightarrow> int (max (length (samples a)) (length (samples b)))
               | Some la \<Rightarrow> la)"
    using v by (simp add: find_best_alignment_offset_def)
  show "align native cc a b max_offset max_lookahead mode fl = Inl e"
    if "native (length (samples b)) (samples b) (length (samples a)) (samples a)
              max_offset
              (case max_lookahead of
                 None \<Rightarrow> int (max (length (samples a)) (length (samples b)))
               | Some la \<Rightarrow> la) = Inl e"
    using that s by (simp add: align_def)
  show "align native cc a b max_offset max_lookahead mode fl
           = (case (if 0 < k then underscore_align (samples a) (samples b) k mode
                    else (case underscore_align (samples b) (samples a) (- k) mode of
                            Inl e \<Rightarrow> Inl e
                          | Inr (b', a') \<Rightarrow> Inr (a', b'))) of
                Inl e \<Rightarrow> Inl e
              | Inr (a', b') \<Rightarrow> underscore_fix a' b' fl)"
    if "native (length (samples b)) (samples b) (length (samples a)) (samples a)
              max_offset
              (case max_lookahead of
                 None \<Rightarrow> int (max (length (samples a)) (length (samples b)))
               | Some la \<Rightarrow> la) = Inr k"
    using that s by (simp add: align_def)
  show "align native cc a b max_offset max_lookahead ''crop'' None
           = Inr (if 0 < k then (drop (nat k) (samples a), samples b)
                  else (samples a, drop (nat (- k)) (samples b)))"
    if "native (length (samples b)) (samples b) (length (samples a)) (samples a)
              max_offset
              (case max_lookahead of
                 None \<Rightarrow> int (max (length (samples a)) (length (samples b)))
               | Some la \<Rightarrow> la) = Inr k"
    using that s by (simp add: align_unfold underscore_fix_def)
  show "align native cc a b max_offset max_lookahead ''pad'' None
           = Inr (if 0 < k then (samples a, replicate (nat k) 0 @ samples b)
                  else (replicate (nat (- k)) 0 @ samples a, samples b))"
    if "native (length (samples b)) (samples b) (length (samples a)) (samples a)
              max_offset
              (case max_lookahead of
                 None \<Rightarrow> int (max (length (samples a)) (length (samples b)))
               | Some la \<Rightarrow> la) = Inr k"
    using that s by (simp add: align_unfold underscore_fix_def)
  show "align native' cc a b max_offset max_lookahead mode fl
           = align native cc a b max_offset max_lookahead mode fl"
    if "native' (length (samples b)) (samples b) (length (samples a)) (samples a)
              max_offset
              (case max_lookahead of
                 None \<Rightarrow> int (max (length (samples a)) (length (samples b)))
               | Some la \<Rightarrow> la) = native (length (samples b)) (samples b) (length (samples a)) (samples a)
              max_offset
              (case max_lookahead of
                 None \<Rightarrow> int (max (length (samples a)) (length (samples b)))
               | Some la \<Rightarrow> la)"
    using that v by (simp add: align_def find_best_alignment_offset_def)
qed

text \<open>
  In the instance below the C routine is played by a function that refuses negative
  bounds, as the conversion of a negative number to an unsigned C parameter does, and
  otherwise answers the lookahead minus the length of the delayed signal.
\<close>

theorem align_always_mse_witness:
  "align (\<lambda>dl d rl r m la.
        if m < 0 \<or> la < 0 then Inl (OverflowError ''can't convert negative number to unsigned'')
        else Inr (la - int dl))
     (\<lambda>x y. (NaN :: int score))
     \<lparr>dtype = Float32, c_contiguous = True, samples = [9, 1, 2, 3 :: int]\<rparr>
     \<lparr>dtype = Float64, c_contiguous = True, samples = [1, 2, 3]\<rparr>
     2 None ''crop'' None = Inl (AssertionError ''Arrays must be float32'') \<and>
   align (\<lambda>dl d rl r m la.
        if m < 0 \<or> la < 0 then Inl (OverflowError ''can't convert negative number to unsigned'')
        else Inr (la - int dl))
     (\<lambda>x y. (NaN :: int score))
     \<lparr>dtype = Float32, c_contiguous = True, samples = [9, 1, 2, 3 :: int]\<rparr>
     \<lparr>dtype = Float32, c_contiguous = False, samples = [1, 2, 3]\<rparr>
     2 None ''crop'' None = Inl (AssertionError ''Arrays must be C-contiguous'') \<and>
   align (\<lambda>dl d rl r m la.
        if m < 0 \<or> la < 0 then Inl (OverflowError ''can't convert negative number to unsigned'')
        else Inr (la - int dl))
     (\<lambda>x y. (NaN :: int score))
     \<lparr>dtype = Float32, c_contiguous = True, samples = [9, 1, 2, 3 :: int]\<rparr>
     \<lparr>dtype = Float32, c_contiguous = True, samples = [1, 2, 3]\<rparr>
     2 (Some (- 1)) ''crop'' None = Inl (OverflowError ''can't convert negative number to unsigned'') \<and>
   align (\<lambda>dl d rl r m la.
        if m < 0 \<or> la < 0 then Inl (OverflowError ''can't convert negative number to unsigned'')
        else Inr (la - int dl))
     (\<lambda>x y. (NaN :: int score))
     \<lparr>dtype = Float32, c_contiguous = True, samples = [9, 1, 2, 3 :: int]\<rparr>
     \<lparr>dtype = Float32, c_contiguous = True, samples = [1, 2, 3]\<rparr>
     2 None ''crop'' None = Inr ([1, 2, 3], [1, 2, 3]) \<and>
   align (\<lambda>dl d rl r m la.
        if m < 0 \<or> la < 0 then Inl (OverflowError ''can't convert negative number to unsigned'')
        else Inr (la - int dl))
     (\<lambda>x y. (NaN :: int score))
     \<lparr>dtype = Float32, c_contiguous = True, samples = [9, 1, 2, 3 :: int]\<rparr>
     \<lparr>dtype = Float32, c_contiguous = True, samples = [1, 2, 3]\<rparr>
     2 (Some 2) ''crop'' None = Inr ([9, 1, 2, 3], [2, 3]) \<and>
   align (\<lambda>dl d rl r m la.
        if m < 0 \<or> la < 0 then Inl (OverflowError ''can't convert negative number to unsigned'')
        else Inr (la - int dl))
     (\<lambda>x y. (NaN :: int score))
     \<lparr>dtype = Float32, c_contiguous = True, samples = [9, 1, 2, 3 :: int]\<rparr>
     \<lparr>dtype = Float32, c_contiguous = True, samples = [1, 2, 3]\<rparr>
     2 (Some 2) ''pad'' None = Inr ([0, 9, 1, 2, 3], [1, 2, 3])"
proof -
  note t = align_always_mse [where native = "\<lambda>dl d rl r m la.
        if m < 0 \<or> la < 0 then Inl (OverflowError ''can't convert negative number to unsigned'')
        else Inr (la - int dl)" and cc = "\<lambda>x y. (NaN :: int score)" and a = "\<lparr>dtype = Float32, c_contiguous = True, samples = [9, 1, 2, 3 :: int]\<rparr>" and max_offset = 2
      and cc' = "\<lambda>x y. (NaN :: int score)"
      and native' = "\<lambda>dl d rl r m la. Inr 7"]
  have c1: "align (\<lambda>dl d rl r m la.
        if m < 0 \<or> la < 0 then Inl (OverflowError ''can't convert negative number to unsigned'')
        else Inr (la - int dl))
     (\<lambda>x y. (NaN :: int score))
     \<lparr>dtype = Float32, c_contiguous = True, samples = [9, 1, 2, 3 :: int]\<rparr>
     \<lparr>dtype = Float64, c_contiguous = True, samples = [1, 2, 3]\<rparr>
     2 None ''crop'' None = Inl (AssertionError ''Arrays must be float32'')"
    using t [where b = "\<lparr>dtype = Float64, c_contiguous = True, samples = [1, 2, 3]\<rparr>" and max_lookahead = None and mode = "''crop''" and fl = None
               and e = "OverflowError ''can't convert negative number to unsigned''" and k = 0]
    by (simp add: underscore_align_nonneg underscore_fix_def)
  have c2: "align (\<lambda>dl d rl r m la.
        if m < 0 \<or> la < 0 then Inl (OverflowError ''can't convert negative number to unsigned'')
        else Inr (la - int dl))
     (\<lambda>x y. (NaN :: int score))
     \<lparr>dtype = Float32, c_contiguous = True, samples = [9, 1, 2, 3 :: int]\<rparr>
     \<lparr>dtype = Float32, c_contiguous = False, samples = [1, 2, 3]\<rparr>
     2 None ''crop'' None = Inl (AssertionError ''Arrays must be C-contiguous'')"
    using t [where b = "\<lparr>dtype = Float32, c_contiguous = False, samples = [1, 2, 3]\<rparr>" and max_lookahead = None and mode = "''crop''" and fl = None
               and e = "OverflowError ''can't convert negative number to unsigned''" and k = 0]
    by (simp add: underscore_align_nonneg underscore_fix_def)
  have c3: "align (\<lambda>dl d rl r m la.
        if m < 0 \<or> la < 0 then Inl (OverflowError ''can't convert negative number to unsigned'')
        else Inr (la - int dl))
     (\<lambda>x y. (NaN :: int score))
     \<lparr>dtype = Float32, c_contiguous = True, samples = [9, 1, 2, 3 :: int]\<rparr>
     \<lparr>dtype = Float32, c_contiguous = True, samples = [1, 2, 3]\<rparr>
     2 (Some (- 1)) ''crop'' None = Inl (OverflowError ''can't convert negative number to unsigned'')"
    using t [where b = "\<lparr>dtype = Float32, c_contiguous = True, samples = [1, 2, 3]\<rparr>" and max_lookahead = "Some (- 1)" and mode = "''crop''" and fl = None
               and e = "OverflowError ''can't convert negative number to unsigned''" and k = 0]
    by (simp add: underscore_align_nonneg underscore_fix_def)
  have c4: "align (\<lambda>dl d rl r m la.
        if m < 0 \<or> la < 0 then Inl (OverflowError ''can't convert negative number to unsigned'')
        else Inr (la - int dl))
     (\<lambda>x y. (NaN :: int score))
     \<lparr>dtype = Float32, c_contiguous = True, samples = [9, 1, 2, 3 :: int]\<rparr>
     \<lparr>dtype = Float32, c_contiguous = True, samples = [1, 2, 3]\<rparr>
     2 None ''crop'' None = Inr ([1, 2, 3], [1, 2, 3])"
    using t [where b = "\<lparr>dtype = Float32, c_contiguous = True, samples = [1, 2, 3]\<rparr>" and max_lookahead = None and mode = "''crop''" and fl = None
               and k = 1
               and e = "OverflowError ''can't convert negative number to unsigned''"]
    by (simp add: underscore_align_nonneg underscore_fix_def)
  have c5: "align (\<lambda>dl d rl r m la.
        if m < 0 \<or> la < 0 then Inl (OverflowError ''can't convert negative number to unsigned'')
        else Inr (la - int dl))
     (\<lambda>x y. (NaN :: int score))
     \<lparr>dtype = Float32, c_contiguous = True, samples = [9, 1, 2, 3 :: int]\<rparr>
     \<lparr>dtype = Float32, c_contiguous = True, samples = [1, 2, 3]\<rparr>
     2 (Some 2) ''crop'' None = Inr ([9, 1, 2, 3], [2, 3])"
    using t [where b = "\<lparr>dtype = Float32, c_contiguous = True, samples = [1, 2, 3]\<rparr>" and max_lookahead = "Some 2" and mode = "''crop''" and fl = None
               and k = "- 1"
               and e = "OverflowError ''can't convert negative number to unsigned''"]
    by (simp add: underscore_align_nonneg underscore_fix_def)
  have c6: "align (\<lambda>dl d rl r m la.
        if m < 0 \<or> la < 0 then Inl (OverflowError ''can't convert negative number to unsigned'')
        else Inr (la - int dl))
     (\<lambda>x y. (NaN :: int score))
     \<lparr>dtype = Float32, c_contiguous = True, samples = [9, 1, 2, 3 :: int]\<rparr>
     \<lparr>dtype = Float32, c_contiguous = True, samples = [1, 2, 3]\<rparr>
     2 (Some 2) ''pad'' None = Inr ([0, 9, 1, 2, 3], [1, 2, 3])"
    using t [where b = "\<lparr>dtype = Float32, c_contiguous = True, samples = [1, 2, 3]\<rparr>" and max_lookahead = "Some 2" and mode = "''pad''" and fl = None
               and k = "- 1"
               and e = "OverflowError ''can't convert negative number to unsigned''"]
    by (simp add: underscore_align_nonneg underscore_fix_def)
  show ?thesis using c1 c2 c3 c4 c5 c6 by blast
qed

subsection \<open>The correlation search\<close>

lemma length_every_nth_cong:
  "length xs = length ys \<Longrightarrow> length (every_nth k xs) = length (every_nth k ys)"
proof (induction k xs arbitrary: ys rule: every_nth.induct)
  case (1 k)
  then show ?case by simp
next
  case (2 k x xs)
  from "2.prems" obtain y ys' where ys: "ys = y # ys'" by (cases ys) auto
  then have "length (drop (k - 1) xs) = length (drop (k - 1) ys')" using "2.prems" by simp
  then have "length (every_nth k (drop (k - 1) xs)) = length (every_nth k (drop (k - 1) ys'))"
    by (rule "2.IH")
  then show ?case unfolding ys by simp
qed

lemma length_py_slice_cong:
  "length xs = length ys \<Longrightarrow> length (py_slice xs lo hi) = length (py_slice ys lo hi)"
  by (simp add: py_slice_def Let_def)

lemma length_py_slice_mirror:
  "length xs = length ys \<Longrightarrow> 0 < k \<Longrightarrow>
   length (py_slice xs (Some k) None) = length (py_slice ys None (Some (- k)))"
  by (auto simp add: py_slice_def Let_def slice_index_def min_def max_def)

lemma fast_autocorr_equal_lengths:
  assumes "length a = length b"
  shows "\<exists>s. fast_autocorr cc a b t = Inr s"
proof -
  have z: "length (py_slice_step a None None 4) = length (py_slice_step b None None 4)"
    unfolding py_slice_step_def
    by (rule length_every_nth_cong) (rule length_py_slice_cong[OF assms])
  have n: "length (py_slice_step a (Some (- t)) None 4) = length (py_slice_step b None (Some t) 4)"
    if "t < 0"
    unfolding py_slice_step_def
    using length_py_slice_mirror[OF assms, of "- t"] that
    by (intro length_every_nth_cong) simp
  have p: "length (py_slice_step a None (Some (- t)) 4) = length (py_slice_step b (Some t) None 4)"
    if "0 < t"
    unfolding py_slice_step_def
    using length_py_slice_mirror[OF assms[symmetric], of t] that
    by (intro length_every_nth_cong) simp
  show ?thesis
    using z n p by (auto simp add: fast_autocorr_def np_corrcoef_def)
qed

lemma lookahead_window_equal_lengths:
  assumes "length a = length b"
  shows "length (fst (lookahead_window a b la)) = length (snd (lookahead_window a b la))"
proof (cases la)
  case None
  then show ?thesis using assms by (simp add: lookahead_window_def)
next
  case (Some l)
  show ?thesis
  proof (cases "int (length a) > l")
    case True
    have "length (py_slice a (Some (int (length a) div 2)) (Some (int (length a) div 2 + l)))
        = length (py_slice b (Some (int (length a) div 2)) (Some (int (length a) div 2 + l)))"
      by (rule length_py_slice_cong[OF assms])
    then show ?thesis using Some True by (simp add: lookahead_window_def Let_def)
  next
    case False
    then show ?thesis using Some assms by (simp add: lookahead_window_def)
  qed
qed

lemma corr_search_total:
  assumes "length a = length b" "lo < hi"
  shows "\<exists>k. find_best_alignment_offset_with_corrcoef cc a b lo hi la = Inr k"
proof -
  obtain wa wb where w: "lookahead_window a b la = (wa, wb)" by (cases "lookahead_window a b la")
  then have len: "length wa = length wb"
    using lookahead_window_equal_lengths[OF assms(1), of la] by simp
  have "\<exists>s. fast_autocorr cc wa wb t = Inr s" for t
    by (rule fast_autocorr_equal_lengths[OF len])
  then have "\<forall>t. lo \<le> t \<and> t < hi \<longrightarrow> (\<exists>s. fast_autocorr cc wa wb t = Inr s)"
    by (intro allI impI)
  then have "\<exists>cs. coefs_loop cc wa wb lo hi = Inr cs"
    by (rule coefs_loop_total)
  then obtain cs where cs: "coefs_loop cc wa wb lo hi = Inr cs" ..
  have "length cs = nat (hi - lo)" using coefs_loop_Inr[OF cs] by simp
  then have "cs \<noteq> []" using assms(2) by auto
  then have "\<exists>r. np_argmax cs = Inr r" by (rule np_argmax_total)
  then obtain r where "np_argmax cs = Inr r" ..
  then show ?thesis using w cs by (simp add: find_best_alignment_offset_with_corrcoef_def)
qed

lemma corr_search_Inr:
  assumes "find_best_alignment_offset_with_corrcoef cc a b lo hi la = Inr k"
  shows "\<exists>cs. coefs_loop cc (fst (lookahead_window a b la)) (snd (lookahead_window a b la)) lo hi
                = Inr cs \<and> np_argmax cs = Inr (nat (k - lo)) \<and> lo \<le> k"
proof -
  obtain wa wb where w: "lookahead_window a b la = (wa, wb)" by (cases "lookahead_window a b la")
  from assms w obtain cs r where
    cs: "coefs_loop cc wa wb lo hi = Inr cs" and r: "np_argmax cs = Inr r" and k: "k = int r + lo"
    by (auto simp add: find_best_alignment_offset_with_corrcoef_def split: sum.splits)
  then show ?thesis using w by simp
qed


lemma corr_search_in_range:
  assumes "find_best_alignment_offset_with_corrcoef cc a b lo hi la = Inr k"
  shows "lo \<le> k \<and> k < hi"
proof -
  from corr_search_Inr[OF assms] obtain cs where
    cs: "coefs_loop cc (fst (lookahead_window a b la)) (snd (lookahead_window a b la)) lo hi = Inr cs"
    and r: "np_argmax cs = Inr (nat (k - lo))" and lo: "lo \<le> k"
    by blast
  have "length cs = nat (hi - lo)" using coefs_loop_Inr[OF cs] by blast
  moreover have "nat (k - lo) < length cs" using np_argmax_spec[OF r] by blast
  ultimately have "nat (k - lo) < nat (hi - lo)" by simp
  then show ?thesis using lo by linarith
qed

text \<open>
  C5. For \<open>max_offset_samples > 0\<close>, an offset returned by the search lies in the
  half-open interval from \<open>- max_offset_samples\<close> to \<open>max_offset_samples\<close>. With the
  correlation method this follows from the code, and an offset is returned for float32
  signals of equal length. With the MSE method the result of the search is what the call
  of the C routine returns or raises for contiguous float32 arrays, so the bound on a
  returned offset is the routine's range contract.
\<close>

theorem offset_in_search_range:
  assumes "0 < max_offset_samples"
  shows "(\<forall>k. find_best_alignment_offset native cc r d max_offset_samples la ''corr'' = Inr k \<longrightarrow>
            - max_offset_samples \<le> k \<and> k < max_offset_samples) \<and>
         ({dtype r, dtype d} = {Float32} \<and> length (samples r) = length (samples d) \<longrightarrow>
            (\<exists>k. find_best_alignment_offset native cc r d max_offset_samples la ''corr'' = Inr k)) \<and>
         (native_range_contract native \<longrightarrow>
            (\<forall>k. find_best_alignment_offset native cc r d max_offset_samples la ''mse'' = Inr k \<longrightarrow>
               - max_offset_samples \<le> k \<and> k < max_offset_samples)) \<and>
         ({dtype r, dtype d} = {Float32} \<and> c_contiguous r \<and> c_contiguous d \<longrightarrow>
            find_best_alignment_offset native cc r d max_offset_samples la ''mse''
              = native (length (samples d)) (samples d) (length (samples r)) (samples r)
                  max_offset_samples
                  (case la of
                     None \<Rightarrow> int (max (length (samples r)) (length (samples d)))
                   | Some l \<Rightarrow> l))"
proof (intro conjI impI allI)
  fix k
  assume "find_best_alignment_offset native cc r d max_offset_samples la ''corr'' = Inr k"
  then have "find_best_alignment_offset_with_corrcoef cc (samples r) (samples d)
               (- max_offset_samples) max_offset_samples None = Inr k"
    by (simp add: find_best_alignment_offset_def split: if_splits)
  then show "- max_offset_samples \<le> k" "k < max_offset_samples"
    using corr_search_in_range by blast+
next
  assume "{dtype r, dtype d} = {Float32} \<and> length (samples r) = length (samples d)"
  then show "\<exists>k. find_best_alignment_offset native cc r d max_offset_samples la ''corr'' = Inr k"
    using corr_search_total[of "samples r" "samples d" "- max_offset_samples" max_offset_samples cc None]
      assms
    by (simp add: find_best_alignment_offset_def)
next
  fix k
  assume c: "native_range_contract native"
    and k: "find_best_alignment_offset native cc r d max_offset_samples la ''mse'' = Inr k"
  from k obtain dl dd rl rr l where n: "native dl dd rl rr max_offset_samples l = Inr k"
    by (auto simp add: find_best_alignment_offset_def Let_def split: if_splits)
  have "- max_offset_samples \<le> k \<and> k < max_offset_samples"
    using c assms n unfolding native_range_contract_def by blast
  then show "- max_offset_samples \<le> k" "k < max_offset_samples" by simp_all
next
  assume "{dtype r, dtype d} = {Float32} \<and> c_contiguous r \<and> c_contiguous d"
  then show "find_best_alignment_offset native cc r d max_offset_samples la ''mse''
              = native (length (samples d)) (samples d) (length (samples r)) (samples r)
                  max_offset_samples
                  (case la of
                     None \<Rightarrow> int (max (length (samples r)) (length (samples d)))
                   | Some l \<Rightarrow> l)"
    by (simp add: find_best_alignment_offset_def)
qed

subsection \<open>Concrete searches\<close>

lemmas eval_defs =
  find_best_alignment_offset_def find_best_alignment_offset_with_corrcoef_def
  lookahead_window_def coefs_loop.simps fast_autocorr_def np_corrcoef_def np_argmax_def
  py_slice_step_def py_slice_def slice_index_def
  corrcoef_10_def cov_entry_def mean_def

lemma full_search_example:
  "find_best_alignment_offset_with_corrcoef corrcoef_10
     [-3, 3, 0, 0, 3, -3, 0, 0, 1, -1, 0, 0, -1, 1, 0, 0]
     [3, 0, 0, 0, -3, 0, 0, 0, 1, 0, 0, 0, -1, 0, 0, 0] (- 1) 1 None = Inr (- 1)"
  by (simp add: eval_defs)

lemma windowed_search_example:
  "find_best_alignment_offset_with_corrcoef corrcoef_10
     [-3, 3, 0, 0, 3, -3, 0, 0, 1, -1, 0, 0, -1, 1, 0, 0]
     [3, 0, 0, 0, -3, 0, 0, 0, 1, 0, 0, 0, -1, 0, 0, 0] (- 1) 1 (Some 8) = Inr 0"
  by (simp add: eval_defs)

lemma tie_example_ab:
  "find_best_alignment_offset_with_corrcoef corrcoef_10
     [2, 2, 0, 0, 0, 0, 2, 2] [3, 3, 1, 1, 1, 1, 3, 3] (- 3) 3 None = Inr (- 1)"
  by (simp add: eval_defs)

lemma tie_example_ba:
  "find_best_alignment_offset_with_corrcoef corrcoef_10
     [3, 3, 1, 1, 1, 1, 3, 3] [2, 2, 0, 0, 0, 0, 2, 2] (- 3) 3 None = Inr (- 1)"
  by (simp add: eval_defs)

lemma unique_example_ab:
  "find_best_alignment_offset_with_corrcoef corrcoef_10
     [2, 2, 2, 0, 0, 0, 0, 0] [0, 2, 0, 0, 2, 0, 2, 0] (- 2) 2 None = Inr 1"
  by (simp add: eval_defs)

lemma unique_example_ba:
  "find_best_alignment_offset_with_corrcoef corrcoef_10
     [0, 2, 0, 0, 2, 0, 2, 0] [2, 2, 2, 0, 0, 0, 0, 0] (- 2) 2 None = Inr (- 1)"
  by (simp add: eval_defs)


theorem offset_in_search_range_witness:
  "(0 :: int) < 2 \<and>
   find_best_alignment_offset (\<lambda>dl d rl r m la. Inr 0) corrcoef_10
     \<lparr>dtype = Float32, c_contiguous = True, samples = [2, 2, 2, 0, 0, 0, 0, 0]\<rparr>
     \<lparr>dtype = Float32, c_contiguous = True, samples = [0, 2, 0, 0, 2, 0, 2, 0]\<rparr>
     2 None ''corr'' = Inr 1 \<and> (- 2 :: int) \<le> 1 \<and> (1 :: int) < 2 \<and>
   native_range_contract (\<lambda>dl (d :: real list) rl (r :: real list) m la. Inr 0) \<and>
   find_best_alignment_offset (\<lambda>dl d rl r m la. Inr 0) corrcoef_10
     \<lparr>dtype = Float32, c_contiguous = True, samples = [2, 2, 2, 0, 0, 0, 0, 0]\<rparr>
     \<lparr>dtype = Float32, c_contiguous = True, samples = [0, 2, 0, 0, 2, 0, 2, 0]\<rparr>
     2 None ''mse'' = Inr 0 \<and> (- 2 :: int) \<le> 0 \<and> (0 :: int) < 2"
proof -
  have h: "(0 :: int) < 2" by simp
  have c: "native_range_contract (\<lambda>dl (d :: real list) rl (r :: real list) m la. Inr 0)"
    by (simp add: native_range_contract_def)
  have s: "find_best_alignment_offset (\<lambda>dl d rl r m la. Inr 0) corrcoef_10
     \<lparr>dtype = Float32, c_contiguous = True, samples = [2, 2, 2, 0, 0, 0, 0, 0]\<rparr>
     \<lparr>dtype = Float32, c_contiguous = True, samples = [0, 2, 0, 0, 2, 0, 2, 0]\<rparr>
     2 None ''corr'' = Inr 1"
    using unique_example_ab by (simp add: find_best_alignment_offset_def)
  have m: "find_best_alignment_offset (\<lambda>dl d rl r m la. Inr 0) corrcoef_10
     \<lparr>dtype = Float32, c_contiguous = True, samples = [2, 2, 2, 0, 0, 0, 0, 0]\<rparr>
     \<lparr>dtype = Float32, c_contiguous = True, samples = [0, 2, 0, 0, 2, 0, 2, 0]\<rparr>
     2 None ''mse'' = Inr 0"
    by (simp add: find_best_alignment_offset_def)
  note t = offset_in_search_range [OF h, of "\<lambda>dl d rl r m la. Inr 0" corrcoef_10
     "\<lparr>dtype = Float32, c_contiguous = True, samples = [2, 2, 2, 0, 0, 0, 0, 0]\<rparr>"
     "\<lparr>dtype = Float32, c_contiguous = True, samples = [0, 2, 0, 0, 2, 0, 2, 0]\<rparr>" None]
  have a: "(- 2 :: int) \<le> 1 \<and> (1 :: int) < 2"
    using t [THEN conjunct1, rule_format, OF s] .
  have b: "(- 2 :: int) \<le> 0 \<and> (0 :: int) < 2"
    using t [THEN conjunct2, THEN conjunct2, THEN conjunct1, rule_format, OF c m] .
  show ?thesis using h c s m a b by blast
qed

subsection \<open>The lookahead of the correlation method\<close>

text \<open>
  C1. The public search with the method \<^verbatim>\<open>"corr"\<close> does not pass
  \<^verbatim>\<open>lookahead_samples\<close> on: its result is the one for no lookahead, scored on the full
  signals. For the two 16-sample signals below, \<^verbatim>\<open>max_offset_samples = 1\<close> and
  \<^verbatim>\<open>lookahead_samples = 8\<close> it returns \<open>-1\<close>, while scoring on the centred window
  \<open>[8, 16)\<close>, as the inner search does when it is given the lookahead, returns \<open>0\<close>.
\<close>

theorem corr_search_ignores_lookahead:
  "find_best_alignment_offset native cc r d max_offset la ''corr''
     = find_best_alignment_offset native cc r d max_offset None ''corr'' \<and>
   find_best_alignment_offset (\<lambda>dl d rl r m la. Inr 0) corrcoef_10
     \<lparr>dtype = Float32, c_contiguous = True,
      samples = [-3, 3, 0, 0, 3, -3, 0, 0, 1, -1, 0, 0, -1, 1, 0, 0]\<rparr>
     \<lparr>dtype = Float32, c_contiguous = True,
      samples = [3, 0, 0, 0, -3, 0, 0, 0, 1, 0, 0, 0, -1, 0, 0, 0]\<rparr>
     1 (Some 8) ''corr'' = Inr (- 1) \<and>
   find_best_alignment_offset_with_corrcoef corrcoef_10
     [-3, 3, 0, 0, 3, -3, 0, 0, 1, -1, 0, 0, -1, 1, 0, 0]
     [3, 0, 0, 0, -3, 0, 0, 0, 1, 0, 0, 0, -1, 0, 0, 0] (- 1) 1 (Some 8) = Inr 0"
proof (intro conjI)
  show "find_best_alignment_offset native cc r d max_offset la ''corr''
     = find_best_alignment_offset native cc r d max_offset None ''corr''"
    by (simp add: find_best_alignment_offset_def)
  show "find_best_alignment_offset (\<lambda>dl d rl r m la. Inr 0) corrcoef_10
     \<lparr>dtype = Float32, c_contiguous = True,
      samples = [-3, 3, 0, 0, 3, -3, 0, 0, 1, -1, 0, 0, -1, 1, 0, 0]\<rparr>
     \<lparr>dtype = Float32, c_contiguous = True,
      samples = [3, 0, 0, 0, -3, 0, 0, 0, 1, 0, 0, 0, -1, 0, 0, 0]\<rparr>
     1 (Some 8) ''corr'' = Inr (- 1)"
    using full_search_example by (simp add: find_best_alignment_offset_def)
  show "find_best_alignment_offset_with_corrcoef corrcoef_10
     [-3, 3, 0, 0, 3, -3, 0, 0, 1, -1, 0, 0, -1, 1, 0, 0]
     [3, 0, 0, 0, -3, 0, 0, 0, 1, 0, 0, 0, -1, 0, 0, 0] (- 1) 1 (Some 8) = Inr 0"
    by (rule windowed_search_example)
qed

subsection \<open>Exchanging the two signals\<close>

lemma np_argmax_unique:
  assumes "r < length cs" "\<forall>j<length cs. j \<noteq> r \<longrightarrow> \<not> score_le (cs ! r) (cs ! j)"
  shows "np_argmax cs = Inr r"
proof -
  have "cs \<noteq> []" using assms(1) by auto
  then obtain r' where r': "np_argmax cs = Inr r'" using np_argmax_total by blast
  have "r' < length cs" and "\<forall>j<length cs. score_le (cs ! j) (cs ! r')"
    using np_argmax_spec[OF r'] by blast+
  then have "r' = r" using assms by blast
  then show ?thesis using r' by simp
qed

lemma corr_search_unique:
  assumes range: "lo \<le> k" "k < hi"
    and sk: "fast_autocorr cc a b k = Inr sk"
    and others: "\<forall>t. lo \<le> t \<and> t < hi \<and> t \<noteq> k \<longrightarrow>
                   (\<exists>s. fast_autocorr cc a b t = Inr s \<and> \<not> score_le sk s)"
  shows "find_best_alignment_offset_with_corrcoef cc a b lo hi None = Inr k"
proof -
  have "\<forall>t. lo \<le> t \<and> t < hi \<longrightarrow> (\<exists>s. fast_autocorr cc a b t = Inr s)"
    using sk others by blast
  then have "\<exists>cs. coefs_loop cc a b lo hi = Inr cs" by (rule coefs_loop_total)
  then obtain cs where cs: "coefs_loop cc a b lo hi = Inr cs" ..
  from coefs_loop_Inr[OF cs] have
    len: "length cs = nat (hi - lo)" and
    nth: "\<forall>j<length cs. fast_autocorr cc a b (lo + int j) = Inr (cs ! j)"
    by blast+
  have r: "nat (k - lo) < length cs" using range len by linarith
  have kth: "cs ! nat (k - lo) = sk"
  proof -
    have "fast_autocorr cc a b (lo + int (nat (k - lo))) = Inr (cs ! nat (k - lo))"
      using nth r by blast
    then show ?thesis using sk range by simp
  qed
  have "\<not> score_le (cs ! nat (k - lo)) (cs ! j)" if j: "j < length cs" "j \<noteq> nat (k - lo)" for j
  proof -
    have t: "lo \<le> lo + int j \<and> lo + int j < hi \<and> lo + int j \<noteq> k"
      using j len range by linarith
    then obtain s where s: "fast_autocorr cc a b (lo + int j) = Inr s" "\<not> score_le sk s"
      using others by blast
    have "fast_autocorr cc a b (lo + int j) = Inr (cs ! j)" using nth j(1) by blast
    then have "cs ! j = s" using s(1) by simp
    then show ?thesis using s(2) kth by simp
  qed
  then have "np_argmax cs = Inr (nat (k - lo))"
    using np_argmax_unique[OF r] by blast
  then show ?thesis using cs range
    by (simp add: find_best_alignment_offset_with_corrcoef_def lookahead_window_def)
qed

text \<open>The searches of the examples below, on the float64 values of the scorer.\<close>

lemmas float64_eval_defs =
  find_best_alignment_offset_def find_best_alignment_offset_with_corrcoef_def
  lookahead_window_def coefs_loop.simps fast_autocorr_def np_corrcoef_def np_argmax_def
  py_slice_step_def py_slice_def slice_index_def
  corrcoef_10_float64_def corrcoef_10_float64_table_def

lemma rounding_example_coefs:
  "coefs_loop corrcoef_10_float64 [5, 0, 0, 0, 0, 5, 5, 0] [3, 15, 0, 0, 0, 0, 3, 0] (- 2) 2
     = Inr [Val (- 1), Val (- 1), Val 1, Val (1 - 1 / 2 ^ 53)]"
  "coefs_loop corrcoef_10_float64 [3, 15, 0, 0, 0, 0, 3, 0] [5, 0, 0, 0, 0, 5, 5, 0] (- 2) 2
     = Inr [Val (- 1), Val 1, Val 1, Val (- 1)]"
  by (simp_all add: float64_eval_defs)

lemma rounding_example_search:
  "find_best_alignment_offset_with_corrcoef corrcoef_10_float64
     [5, 0, 0, 0, 0, 5, 5, 0] [3, 15, 0, 0, 0, 0, 3, 0] (- 2) 2 None = Inr 0"
  "find_best_alignment_offset_with_corrcoef corrcoef_10_float64
     [3, 15, 0, 0, 0, 0, 3, 0] [5, 0, 0, 0, 0, 5, 5, 0] (- 2) 2 None = Inr (- 1)"
  by (simp_all add: float64_eval_defs)

lemma float64_example_search:
  "find_best_alignment_offset_with_corrcoef corrcoef_10_float64
     [2, 2, 2, 0, 0, 0, 0, 0] [0, 2, 0, 0, 2, 0, 2, 0] (- 2) 2 None = Inr 1"
  by (simp add: float64_eval_defs)

lemma float64_example_scores:
  "fast_autocorr corrcoef_10_float64 [2, 2, 2, 0, 0, 0, 0, 0] [0, 2, 0, 0, 2, 0, 2, 0] (- 1)
     = Inr (Val (- (1 - 1 / 2 ^ 53)))"
  "fast_autocorr corrcoef_10_float64 [2, 2, 2, 0, 0, 0, 0, 0] [0, 2, 0, 0, 2, 0, 2, 0] 0
     = Inr (Val (- (1 - 1 / 2 ^ 53)))"
  "fast_autocorr corrcoef_10_float64 [2, 2, 2, 0, 0, 0, 0, 0] [0, 2, 0, 0, 2, 0, 2, 0] 1
     = Inr (Val (1 - 1 / 2 ^ 53))"
  "fast_autocorr corrcoef_10_float64 [2, 2, 2, 0, 0, 0, 0, 0] [0, 2, 0, 0, 2, 0, 2, 0] 2
     = Inr (Val (- (1 - 1 / 2 ^ 53)))"
  "fast_autocorr corrcoef_10_float64 [0, 2, 0, 0, 2, 0, 2, 0] [2, 2, 2, 0, 0, 0, 0, 0] 1
     = Inr (Val (- (1 - 1 / 2 ^ 53)))"
  "fast_autocorr corrcoef_10_float64 [0, 2, 0, 0, 2, 0, 2, 0] [2, 2, 2, 0, 0, 0, 0, 0] 0
     = Inr (Val (- (1 - 1 / 2 ^ 53)))"
  "fast_autocorr corrcoef_10_float64 [0, 2, 0, 0, 2, 0, 2, 0] [2, 2, 2, 0, 0, 0, 0, 0] (- 1)
     = Inr (Val (1 - 1 / 2 ^ 53))"
  "fast_autocorr corrcoef_10_float64 [0, 2, 0, 0, 2, 0, 2, 0] [2, 2, 2, 0, 0, 0, 0, 0] (- 2)
     = Inr (Val (- (1 - 1 / 2 ^ 53)))"
  by (simp_all add: float64_eval_defs)

text \<open>
  C9, as stated, fails in two ways away from the bounds of the range. First a tie: with
  \<^verbatim>\<open>max_offset_samples = 3\<close> the lags \<open>-1\<close>, \<open>0\<close> and \<open>1\<close> all score the same for the
  first two signals below, the other lags score lower, and the search returns \<open>-1\<close> for
  \<open>(a, b)\<close> and for \<open>(b, a)\<close> alike. Second the rounding of the scorer: for the signals
  \<open>[5, 0, 0, 0, 0, 5, 5, 0]\<close> and \<open>[3, 15, 0, 0, 0, 0, 3, 0]\<close> with
  \<^verbatim>\<open>max_offset_samples = 2\<close>, lag \<open>0\<close> scores \<open>1.0\<close> and is the only best lag of
  \<open>(a, b)\<close>, lag \<open>1\<close> scoring \<open>0.9999999999999999\<close>; with the signals exchanged the
  same slices score \<open>1.0\<close> at both lags \<open>-1\<close> and \<open>0\<close>, and the search returns \<open>-1\<close>.
\<close>

theorem corr_search_symmetry_counterexample:
  "find_best_alignment_offset (\<lambda>dl d rl r m la. Inr 0) corrcoef_10
     \<lparr>dtype = Float32, c_contiguous = True, samples = [2, 2, 0, 0, 0, 0, 2, 2]\<rparr>
     \<lparr>dtype = Float32, c_contiguous = True, samples = [3, 3, 1, 1, 1, 1, 3, 3]\<rparr>
     3 None ''corr'' = Inr (- 1) \<and>
   find_best_alignment_offset (\<lambda>dl d rl r m la. Inr 0) corrcoef_10
     \<lparr>dtype = Float32, c_contiguous = True, samples = [3, 3, 1, 1, 1, 1, 3, 3]\<rparr>
     \<lparr>dtype = Float32, c_contiguous = True, samples = [2, 2, 0, 0, 0, 0, 2, 2]\<rparr>
     3 None ''corr'' = Inr (- 1) \<and>
   coefs_loop corrcoef_10 [2, 2, 0, 0, 0, 0, 2, 2] [3, 3, 1, 1, 1, 1, 3, 3] (- 3) 3
     = Inr [Val (- 1), Val (- 1), Val 1, Val 1, Val 1, Val (- 1)] \<and>
   (- 1 :: int) \<noteq> - (- 1) \<and>
   find_best_alignment_offset (\<lambda>dl d rl r m la. Inr 0) corrcoef_10_float64
     \<lparr>dtype = Float32, c_contiguous = True, samples = [5, 0, 0, 0, 0, 5, 5, 0]\<rparr>
     \<lparr>dtype = Float32, c_contiguous = True, samples = [3, 15, 0, 0, 0, 0, 3, 0]\<rparr>
     2 None ''corr'' = Inr 0 \<and>
   find_best_alignment_offset (\<lambda>dl d rl r m la. Inr 0) corrcoef_10_float64
     \<lparr>dtype = Float32, c_contiguous = True, samples = [3, 15, 0, 0, 0, 0, 3, 0]\<rparr>
     \<lparr>dtype = Float32, c_contiguous = True, samples = [5, 0, 0, 0, 0, 5, 5, 0]\<rparr>
     2 None ''corr'' = Inr (- 1) \<and>
   coefs_loop corrcoef_10_float64 [5, 0, 0, 0, 0, 5, 5, 0] [3, 15, 0, 0, 0, 0, 3, 0] (- 2) 2
     = Inr [Val (- 1), Val (- 1), Val 1, Val (1 - 1 / 2 ^ 53)] \<and>
   coefs_loop corrcoef_10_float64 [3, 15, 0, 0, 0, 0, 3, 0] [5, 0, 0, 0, 0, 5, 5, 0] (- 2) 2
     = Inr [Val (- 1), Val 1, Val 1, Val (- 1)] \<and>
   fast_autocorr corrcoef_10_float64 [5, 0, 0, 0, 0, 5, 5, 0] [3, 15, 0, 0, 0, 0, 3, 0] 2
     = Inr (Val (- 1)) \<and>
   (0 :: int) \<noteq> - (- 1)"
proof (intro conjI)
  show "find_best_alignment_offset (\<lambda>dl d rl r m la. Inr 0) corrcoef_10
     \<lparr>dtype = Float32, c_contiguous = True, samples = [2, 2, 0, 0, 0, 0, 2, 2]\<rparr>
     \<lparr>dtype = Float32, c_contiguous = True, samples = [3, 3, 1, 1, 1, 1, 3, 3]\<rparr>
     3 None ''corr'' = Inr (- 1)"
    using tie_example_ab by (simp add: find_best_alignment_offset_def)
  show "find_best_alignment_offset (\<lambda>dl d rl r m la. Inr 0) corrcoef_10
     \<lparr>dtype = Float32, c_contiguous = True, samples = [3, 3, 1, 1, 1, 1, 3, 3]\<rparr>
     \<lparr>dtype = Float32, c_contiguous = True, samples = [2, 2, 0, 0, 0, 0, 2, 2]\<rparr>
     3 None ''corr'' = Inr (- 1)"
    using tie_example_ba by (simp add: find_best_alignment_offset_def)
  show "coefs_loop corrcoef_10 [2, 2, 0, 0, 0, 0, 2, 2] [3, 3, 1, 1, 1, 1, 3, 3] (- 3) 3
     = Inr [Val (- 1), Val (- 1), Val 1, Val 1, Val 1, Val (- 1)]"
    by (simp add: eval_defs)
  show "(- 1 :: int) \<noteq> - (- 1)" by simp
  show "find_best_alignment_offset (\<lambda>dl d rl r m la. Inr 0) corrcoef_10_float64
     \<lparr>dtype = Float32, c_contiguous = True, samples = [5, 0, 0, 0, 0, 5, 5, 0]\<rparr>
     \<lparr>dtype = Float32, c_contiguous = True, samples = [3, 15, 0, 0, 0, 0, 3, 0]\<rparr>
     2 None ''corr'' = Inr 0"
    using rounding_example_search(1) by (simp add: find_best_alignment_offset_def)
  show "find_best_alignment_offset (\<lambda>dl d rl r m la. Inr 0) corrcoef_10_float64
     \<lparr>dtype = Float32, c_contiguous = True, samples = [3, 15, 0, 0, 0, 0, 3, 0]\<rparr>
     \<lparr>dtype = Float32, c_contiguous = True, samples = [5, 0, 0, 0, 0, 5, 5, 0]\<rparr>
     2 None ''corr'' = Inr (- 1)"
    using rounding_example_search(2) by (simp add: find_best_alignment_offset_def)
  show "coefs_loop corrcoef_10_float64 [5, 0, 0, 0, 0, 5, 5, 0] [3, 15, 0, 0, 0, 0, 3, 0] (- 2) 2
     = Inr [Val (- 1), Val (- 1), Val 1, Val (1 - 1 / 2 ^ 53)]"
    by (rule rounding_example_coefs(1))
  show "coefs_loop corrcoef_10_float64 [3, 15, 0, 0, 0, 0, 3, 0] [5, 0, 0, 0, 0, 5, 5, 0] (- 2) 2
     = Inr [Val (- 1), Val 1, Val 1, Val (- 1)]"
    by (rule rounding_example_coefs(2))
  show "fast_autocorr corrcoef_10_float64 [5, 0, 0, 0, 0, 5, 5, 0] [3, 15, 0, 0, 0, 0, 3, 0] 2
     = Inr (Val (- 1))"
    by (simp add: float64_eval_defs)
  show "(0 :: int) \<noteq> - (- 1)" by simp
qed

text \<open>
  The search for \<open>(b, a)\<close> compares at lag \<open>- t\<close> the two slices that the search for
  \<open>(a, b)\<close> compares at lag \<open>t\<close>, given to the scorer in the other order.
\<close>

lemma fast_autocorr_swap:
  "fast_autocorr cc b a (- t) = fast_autocorr (\<lambda>x y. cc y x) a b t"
proof -
  consider "t = 0" | "t < 0" | "0 < t" by linarith
  then show ?thesis
  proof cases
    case 1
    then show ?thesis by (simp add: fast_autocorr_def np_corrcoef_def)
  next
    case 2
    then show ?thesis by (simp add: fast_autocorr_def np_corrcoef_def)
  next
    case 3
    then show ?thesis by (simp add: fast_autocorr_def np_corrcoef_def)
  qed
qed

text \<open>
  C9, amended. For any scorer: if the search for \<open>(a, b)\<close> returns \<open>k\<close>, \<open>k\<close> is not the
  lower bound \<open>- max_offset_samples\<close>, every lag \<open>t\<close> from \<open>- max_offset_samples + 1\<close>
  to \<open>max_offset_samples\<close> has the same score for \<open>(a, b)\<close> at \<open>t\<close> as for \<open>(b, a)\<close>
  at \<open>- t\<close>, and every such lag other than \<open>k\<close> scores strictly lower than \<open>k\<close>,
  then the search for \<open>(b, a)\<close> returns \<open>- k\<close>.
\<close>

theorem corr_search_mirror:
  assumes ab: "find_best_alignment_offset native cc a b max_offset_samples la ''corr'' = Inr k"
    and kl: "- max_offset_samples < k"
    and mirror: "\<forall>t. - max_offset_samples < t \<and> t \<le> max_offset_samples \<longrightarrow>
                   fast_autocorr cc (samples b) (samples a) (- t)
                     = fast_autocorr cc (samples a) (samples b) t"
    and uniq: "\<forall>t. - max_offset_samples < t \<and> t \<le> max_offset_samples \<and> t \<noteq> k \<longrightarrow>
                 (\<exists>s sk. fast_autocorr cc (samples a) (samples b) t = Inr s \<and>
                         fast_autocorr cc (samples a) (samples b) k = Inr sk \<and>
                         \<not> score_le sk s)"
  shows "(\<forall>t. fast_autocorr cc (samples b) (samples a) (- t)
               = fast_autocorr (\<lambda>x y. cc y x) (samples a) (samples b) t) \<and>
         find_best_alignment_offset native cc b a max_offset_samples la ''corr'' = Inr (- k)"
proof
  show "\<forall>t. fast_autocorr cc (samples b) (samples a) (- t)
               = fast_autocorr (\<lambda>x y. cc y x) (samples a) (samples b) t"
    using fast_autocorr_swap by blast
  from ab have dt: "{dtype a, dtype b} = {Float32}"
    by (auto simp add: find_best_alignment_offset_def split: if_splits)
  from ab have s: "find_best_alignment_offset_with_corrcoef cc (samples a) (samples b)
                     (- max_offset_samples) max_offset_samples None = Inr k"
    by (simp add: find_best_alignment_offset_def split: if_splits)
  have ku: "k < max_offset_samples" using corr_search_in_range[OF s] by simp
  from corr_search_Inr[OF s] obtain cs where
    cs: "coefs_loop cc (samples a) (samples b) (- max_offset_samples) max_offset_samples = Inr cs"
    and r: "np_argmax cs = Inr (nat (k - (- max_offset_samples)))"
    by (auto simp add: lookahead_window_def)
  have "nat (k - (- max_offset_samples)) < length cs" using np_argmax_spec[OF r] by blast
  then have "fast_autocorr cc (samples a) (samples b)
               (- max_offset_samples + int (nat (k - (- max_offset_samples))))
             = Inr (cs ! nat (k - (- max_offset_samples)))"
    using coefs_loop_Inr[OF cs] by blast
  then obtain sk where sk: "fast_autocorr cc (samples a) (samples b) k = Inr sk"
    using kl by simp
  have "fast_autocorr cc (samples b) (samples a) (- k)
          = fast_autocorr cc (samples a) (samples b) k"
    using mirror kl ku by simp
  then have sk': "fast_autocorr cc (samples b) (samples a) (- k) = Inr sk"
    using sk by simp
  have others: "\<forall>t. - max_offset_samples \<le> t \<and> t < max_offset_samples \<and> t \<noteq> - k \<longrightarrow>
                  (\<exists>s. fast_autocorr cc (samples b) (samples a) t = Inr s \<and> \<not> score_le sk s)"
  proof (intro allI impI)
    fix t
    assume t: "- max_offset_samples \<le> t \<and> t < max_offset_samples \<and> t \<noteq> - k"
    then have rng: "- max_offset_samples < - t \<and> - t \<le> max_offset_samples \<and> - t \<noteq> k"
      by linarith
    then obtain s' sk' where
      a: "fast_autocorr cc (samples a) (samples b) (- t) = Inr s'" and
      b: "fast_autocorr cc (samples a) (samples b) k = Inr sk'" and
      c: "\<not> score_le sk' s'"
      using uniq by blast
    have "sk' = sk" using b sk by simp
    moreover have "fast_autocorr cc (samples b) (samples a) (- (- t))
                     = fast_autocorr cc (samples a) (samples b) (- t)"
      using mirror rng by blast
    then have "fast_autocorr cc (samples b) (samples a) t = Inr s'"
      using a by simp
    ultimately show "\<exists>s. fast_autocorr cc (samples b) (samples a) t = Inr s \<and> \<not> score_le sk s"
      using c by blast
  qed
  have "find_best_alignment_offset_with_corrcoef cc (samples b) (samples a)
          (- max_offset_samples) max_offset_samples None = Inr (- k)"
    using corr_search_unique[OF _ _ sk' others] kl ku by simp
  moreover have "{dtype b, dtype a} = {Float32}" using dt by auto
  ultimately show "find_best_alignment_offset native cc b a max_offset_samples la ''corr''
                     = Inr (- k)"
    by (simp add: find_best_alignment_offset_def)
qed

theorem corr_search_mirror_witness:
  "find_best_alignment_offset (\<lambda>dl d rl r m la. Inr 0) corrcoef_10_float64
     \<lparr>dtype = Float32, c_contiguous = True, samples = [2, 2, 2, 0, 0, 0, 0, 0]\<rparr>
     \<lparr>dtype = Float32, c_contiguous = True, samples = [0, 2, 0, 0, 2, 0, 2, 0]\<rparr>
     2 None ''corr'' = Inr 1 \<and>
   find_best_alignment_offset (\<lambda>dl d rl r m la. Inr 0) corrcoef_10_float64
     \<lparr>dtype = Float32, c_contiguous = True, samples = [0, 2, 0, 0, 2, 0, 2, 0]\<rparr>
     \<lparr>dtype = Float32, c_contiguous = True, samples = [2, 2, 2, 0, 0, 0, 0, 0]\<rparr>
     2 None ''corr'' = Inr (- 1)"
proof -
  have ab: "find_best_alignment_offset (\<lambda>dl d rl r m la. Inr 0) corrcoef_10_float64
     \<lparr>dtype = Float32, c_contiguous = True, samples = [2, 2, 2, 0, 0, 0, 0, 0]\<rparr>
     \<lparr>dtype = Float32, c_contiguous = True, samples = [0, 2, 0, 0, 2, 0, 2, 0]\<rparr>
     2 None ''corr'' = Inr 1"
    using float64_example_search by (simp add: find_best_alignment_offset_def)
  have kl: "- (2::int) < 1" by simp
  have mirror: "\<forall>t. - 2 < t \<and> t \<le> 2 \<longrightarrow>
      fast_autocorr corrcoef_10_float64 (samples \<lparr>dtype = Float32, c_contiguous = True, samples = [0, 2, 0, 0, 2, 0, 2, 0]\<rparr>) (samples \<lparr>dtype = Float32, c_contiguous = True, samples = [2, 2, 2, 0, 0, 0, 0, 0]\<rparr>) (- t)
        = fast_autocorr corrcoef_10_float64 (samples \<lparr>dtype = Float32, c_contiguous = True, samples = [2, 2, 2, 0, 0, 0, 0, 0]\<rparr>) (samples \<lparr>dtype = Float32, c_contiguous = True, samples = [0, 2, 0, 0, 2, 0, 2, 0]\<rparr>) t"
  proof (intro allI impI)
    fix t :: int
    assume "- 2 < t \<and> t \<le> 2"
    then consider "t = - 1" | "t = 0" | "t = 1" | "t = 2" by linarith
    then show "fast_autocorr corrcoef_10_float64 (samples \<lparr>dtype = Float32, c_contiguous = True, samples = [0, 2, 0, 0, 2, 0, 2, 0]\<rparr>) (samples \<lparr>dtype = Float32, c_contiguous = True, samples = [2, 2, 2, 0, 0, 0, 0, 0]\<rparr>) (- t)
        = fast_autocorr corrcoef_10_float64 (samples \<lparr>dtype = Float32, c_contiguous = True, samples = [2, 2, 2, 0, 0, 0, 0, 0]\<rparr>) (samples \<lparr>dtype = Float32, c_contiguous = True, samples = [0, 2, 0, 0, 2, 0, 2, 0]\<rparr>) t"
      by cases (simp_all add: float64_example_scores)
  qed
  have uniq: "\<forall>t. - 2 < t \<and> t \<le> 2 \<and> t \<noteq> 1 \<longrightarrow>
      (\<exists>s sk. fast_autocorr corrcoef_10_float64 (samples \<lparr>dtype = Float32, c_contiguous = True, samples = [2, 2, 2, 0, 0, 0, 0, 0]\<rparr>) (samples \<lparr>dtype = Float32, c_contiguous = True, samples = [0, 2, 0, 0, 2, 0, 2, 0]\<rparr>) t = Inr s \<and>
               fast_autocorr corrcoef_10_float64 (samples \<lparr>dtype = Float32, c_contiguous = True, samples = [2, 2, 2, 0, 0, 0, 0, 0]\<rparr>) (samples \<lparr>dtype = Float32, c_contiguous = True, samples = [0, 2, 0, 0, 2, 0, 2, 0]\<rparr>) 1 = Inr sk \<and>
               \<not> score_le sk s)"
  proof (intro allI impI)
    fix t :: int
    assume "- 2 < t \<and> t \<le> 2 \<and> t \<noteq> 1"
    then consider "t = - 1" | "t = 0" | "t = 2" by linarith
    then show "\<exists>s sk. fast_autocorr corrcoef_10_float64 (samples \<lparr>dtype = Float32, c_contiguous = True, samples = [2, 2, 2, 0, 0, 0, 0, 0]\<rparr>) (samples \<lparr>dtype = Float32, c_contiguous = True, samples = [0, 2, 0, 0, 2, 0, 2, 0]\<rparr>) t = Inr s \<and>
               fast_autocorr corrcoef_10_float64 (samples \<lparr>dtype = Float32, c_contiguous = True, samples = [2, 2, 2, 0, 0, 0, 0, 0]\<rparr>) (samples \<lparr>dtype = Float32, c_contiguous = True, samples = [0, 2, 0, 0, 2, 0, 2, 0]\<rparr>) 1 = Inr sk \<and>
               \<not> score_le sk s"
      by cases (simp_all add: float64_example_scores)
  qed
  show ?thesis
    using corr_search_mirror [OF ab kl mirror uniq] ab by simp
qed

end
